theory Spec2Isabelle
  imports Complex_Main "HOL-Library.AList"
begin

section \<open>Values, errors and the outside world\<close>

text \<open>
  The two pipelines (\<^verbatim>\<open>Mailchimp_ETL_Pipe/main.py\<close> and \<^verbatim>\<open>ga_etl/main.py\<close>) are embedded
  function by function. Python exceptions are values of \<open>error\<close>; a function that may
  raise returns \<open>error + 'a\<close> with \<open>Inl\<close> the exception. Floats are modelled by real
  numbers together with the two infinities and the missing value (NaN); rounding is not
  modelled. Logging has no effect on results and is left out; an \<^verbatim>\<open>except\<close> block
  that logs and re-raises is therefore the identity.
\<close>

datatype json =
    JNull
  | JBool bool
  | JInt int
  | JReal real
  | JStr string
  | JArr "json list"
  | JObj "(string \<times> json) list"

datatype error =
    HTTPError int
  | ConnectionError
  | JSONDecodeError
  | KeyError string
  | IndexError
  | AttributeError
  | TypeError
  | ValueError
  | UnboundLocalError string

type_synonym 'a result = "error + 'a"

definition bind_result :: "'a result \<Rightarrow> ('a \<Rightarrow> 'b result) \<Rightarrow> 'b result" where
  "bind_result r f = (case r of Inl e \<Rightarrow> Inl e | Inr x \<Rightarrow> f x)"

subsection \<open>Python operations on parsed JSON\<close>

text \<open>
  A JSON object is a Python \<^verbatim>\<open>dict\<close>, kept as an association list in insertion order.
  \<open>py_get d k dflt\<close> is \<^verbatim>\<open>d.get(k, dflt)\<close>, \<open>py_index d k\<close> is \<^verbatim>\<open>d[k]\<close>,
  \<open>py_iter x\<close> is what a \<^verbatim>\<open>for\<close> loop over \<open>x\<close> visits, \<open>py_truthy\<close> is truth-value
  testing and \<open>py_add\<close> is \<^verbatim>\<open>+\<close>.
\<close>

fun py_get :: "json \<Rightarrow> string \<Rightarrow> json \<Rightarrow> json result" where
  "py_get (JObj kvs) k dflt = Inr (case map_of kvs k of None \<Rightarrow> dflt | Some v \<Rightarrow> v)"
| "py_get _ k dflt = Inl AttributeError"

fun py_index :: "json \<Rightarrow> string \<Rightarrow> json result" where
  "py_index (JObj kvs) k = (case map_of kvs k of None \<Rightarrow> Inl (KeyError k) | Some v \<Rightarrow> Inr v)"
| "py_index _ k = Inl TypeError"

fun py_iter :: "json \<Rightarrow> json list result" where
  "py_iter (JArr xs) = Inr xs"
| "py_iter (JObj kvs) = Inr (map (\<lambda>kv. JStr (fst kv)) kvs)"
| "py_iter (JStr s) = Inr (map (\<lambda>c. JStr [c]) s)"
| "py_iter _ = Inl TypeError"

fun py_truthy :: "json \<Rightarrow> bool" where
  "py_truthy JNull = False"
| "py_truthy (JBool b) = b"
| "py_truthy (JInt i) = (i \<noteq> 0)"
| "py_truthy (JReal r) = (r \<noteq> 0)"
| "py_truthy (JStr s) = (s \<noteq> [])"
| "py_truthy (JArr xs) = (xs \<noteq> [])"
| "py_truthy (JObj kvs) = (kvs \<noteq> [])"

fun py_add :: "json \<Rightarrow> json \<Rightarrow> json result" where
  "py_add (JInt a) (JInt b) = Inr (JInt (a + b))"
| "py_add (JInt a) (JReal b) = Inr (JReal (of_int a + b))"
| "py_add (JReal a) (JInt b) = Inr (JReal (a + of_int b))"
| "py_add (JReal a) (JReal b) = Inr (JReal (a + b))"
| "py_add (JBool a) (JBool b) = Inr (JInt (of_bool a + of_bool b))"
| "py_add (JBool a) (JInt b) = Inr (JInt (of_bool a + b))"
| "py_add (JInt a) (JBool b) = Inr (JInt (a + of_bool b))"
| "py_add (JBool a) (JReal b) = Inr (JReal (of_bool a + b))"
| "py_add (JReal a) (JBool b) = Inr (JReal (a + of_bool b))"
| "py_add (JStr a) (JStr b) = Inr (JStr (a @ b))"
| "py_add (JArr a) (JArr b) = Inr (JArr (a @ b))"
| "py_add _ _ = Inl TypeError"

subsection \<open>The world: HTTP, sleeping, the clock and the file system\<close>

record request =
  url :: string
  headers :: "(string \<times> string) list"
  params :: "(string \<times> json) list option"

record response =
  status_code :: int
  json_body :: "json option"

datatype event = Get request | Sleep real

text \<open>Table cells: a missing value (\<^verbatim>\<open>NaN\<close>, \<^verbatim>\<open>None\<close>, \<^verbatim>\<open>NaT\<close>), a finite number, the
  two infinities, a string, a timestamp, or any other Python object.\<close>

datatype cell = NA | Num real | PInf | NInf | Str string | Time int | Obj json

record dataframe =
  nrows :: nat
  cols :: "(string \<times> cell list) list"

datatype file_content =
    Csv dataframe
  | Xlsx "(string \<times> dataframe) list"
  | JsonRecords "(string \<times> dataframe) list"
  | JsonTable dataframe

record world =
  trace :: "event list"
  clock_reads :: nat
  dirs :: "string list"
  files :: "(string \<times> file_content) list"

text \<open>
  Everything the source calls but does not define is a field of the environment: the
  remote server (the answer to the \<open>k\<close>-th request; \<open>None\<close> is a transport failure),
  the wall clock (the \<open>k\<close>-th reading), Python's \<^verbatim>\<open>str()\<close>, \<^verbatim>\<open>int()\<close>, \<^verbatim>\<open>float()\<close> and
  string methods whose exact tables do not matter here, and the pandas operations on
  timestamps and aggregates. The theorems hold for every environment.
\<close>

record env =
  http_get :: "nat \<Rightarrow> request \<Rightarrow> response option"
  wall_clock :: "nat \<Rightarrow> int"
  py_str :: "json \<Rightarrow> string"
  py_int :: "string \<Rightarrow> int option"
  py_float :: "string \<Rightarrow> cell option"
  strftime :: "int \<Rightarrow> string"
  str_strip :: "string \<Rightarrow> string"
  str_title :: "string \<Rightarrow> string"
  to_datetime :: "cell list \<Rightarrow> cell list result"
  dt_tz :: "cell list \<Rightarrow> bool"
  tz_localize_none :: "cell list \<Rightarrow> cell list"
  dt_date :: "cell list \<Rightarrow> cell list"
  dt_hour :: "cell list \<Rightarrow> cell list"
  days_between :: "int \<Rightarrow> cell list \<Rightarrow> cell list result"
  fmt_mean_pct :: "cell list \<Rightarrow> string result"
  col_sum :: "cell list \<Rightarrow> cell result"
  value_counts_head :: "nat \<Rightarrow> cell list \<Rightarrow> (string \<times> nat) list"
  top_countries :: "dataframe \<Rightarrow> dataframe result"

type_synonym 'a io = "world \<Rightarrow> 'a result \<times> world"

definition n_requests :: "world \<Rightarrow> nat" where
  "n_requests w = length (filter (\<lambda>ev. case ev of Get _ \<Rightarrow> True | Sleep _ \<Rightarrow> False) (trace w))"

definition sleep :: "real \<Rightarrow> world \<Rightarrow> world" where
  "sleep d w = w\<lparr>trace := trace w @ [Sleep d]\<rparr>"

definition now :: "env \<Rightarrow> world \<Rightarrow> int \<times> world" where
  "now env w = (wall_clock env (clock_reads w), w\<lparr>clock_reads := Suc (clock_reads w)\<rparr>)"

section \<open>The Mailchimp pipeline\<close>

record mailchimp_etl =
  api_key :: string
  server_prefix :: string

definition base_url :: "mailchimp_etl \<Rightarrow> string" where
  "base_url etl = ''https://'' @ server_prefix etl @ ''.api.mailchimp.com/3.0''"

definition etl_headers :: "mailchimp_etl \<Rightarrow> (string \<times> string) list" where
  "etl_headers etl =
     [(''Authorization'', ''apikey '' @ api_key etl), (''Content-Type'', ''application/json'')]"

text \<open>\<^verbatim>\<open>Response.raise_for_status()\<close> of the \<^verbatim>\<open>requests\<close> library raises \<^verbatim>\<open>HTTPError\<close>
  for every status from 400 to 599.\<close>

definition raise_for_status :: "response \<Rightarrow> unit result" where
  "raise_for_status r =
     (if 400 \<le> status_code r \<and> status_code r < 600 then Inl (HTTPError (status_code r))
      else Inr ())"

definition mk_request :: "mailchimp_etl \<Rightarrow> string \<Rightarrow> (string \<times> json) list option \<Rightarrow> request" where
  "mk_request etl endpoint ps =
     \<lparr>url = base_url etl @ ''/'' @ endpoint, headers = etl_headers etl, params = ps\<rparr>"

function make_request ::
  "env \<Rightarrow> mailchimp_etl \<Rightarrow> string \<Rightarrow> (string \<times> json) list option \<Rightarrow> json io" where
  "make_request env etl endpoint ps w =
     (let req = mk_request etl endpoint ps;
          w1 = w\<lparr>trace := trace w @ [Get req]\<rparr>
      in case http_get env (n_requests w) req of
           None \<Rightarrow> (Inl ConnectionError, w1)
         | Some resp \<Rightarrow>
             (case raise_for_status resp of
                Inl e \<Rightarrow> (Inl e, w1)
              | Inr u \<Rightarrow>
                  if status_code resp = 429
                  then make_request env etl endpoint ps (sleep 60 w1)
                  else (case json_body resp of
                          None \<Rightarrow> (Inl JSONDecodeError, w1)
                        | Some j \<Rightarrow> (Inr j, w1))))"
  by pat_completeness auto
termination
  by (relation "{}") (auto simp: raise_for_status_def split: if_splits)


subsection \<open>Extractors\<close>

type_synonym row = "(string \<times> json) list"

fun map_result :: "('a \<Rightarrow> 'b result) \<Rightarrow> 'a list \<Rightarrow> 'b list result" where
  "map_result f [] = Inr []"
| "map_result f (x # xs) =
     (case f x of
        Inl e \<Rightarrow> Inl e
      | Inr y \<Rightarrow> (case map_result f xs of Inl e \<Rightarrow> Inl e | Inr ys \<Rightarrow> Inr (y # ys)))"

definition py_get2 :: "json \<Rightarrow> string \<Rightarrow> string \<Rightarrow> json \<Rightarrow> json result" where
  "py_get2 d k1 k2 dflt = bind_result (py_get d k1 (JObj [])) (\<lambda>sub. py_get sub k2 dflt)"

definition py_index2 :: "json \<Rightarrow> string \<Rightarrow> string \<Rightarrow> json result" where
  "py_index2 d k1 k2 = bind_result (py_index d k1) (\<lambda>sub. py_index sub k2)"

definition list_row :: "json \<Rightarrow> row result" where
  "list_row list_item =
     bind_result (py_index list_item ''id'') (\<lambda>v_id.
     bind_result (py_index list_item ''name'') (\<lambda>v_name.
     bind_result (py_index2 list_item ''stats'' ''member_count'') (\<lambda>v_members.
     bind_result (py_index2 list_item ''stats'' ''unsubscribe_count'') (\<lambda>v_unsub.
     bind_result (py_index2 list_item ''stats'' ''open_rate'') (\<lambda>v_open.
     bind_result (py_index2 list_item ''stats'' ''click_rate'') (\<lambda>v_click.
     bind_result (py_index list_item ''date_created'') (\<lambda>v_created.
     bind_result (py_get list_item ''visibility'' (JStr ''private'')) (\<lambda>v_vis.
     Inr [(''list_id'', v_id), (''list_name'', v_name), (''member_count'', v_members),
          (''unsubscribe_count'', v_unsub), (''open_rate'', v_open), (''click_rate'', v_click),
          (''date_created'', v_created), (''visibility'', v_vis)]))))))))"

definition extract_lists :: "env \<Rightarrow> mailchimp_etl \<Rightarrow> row list io" where
  "extract_lists env etl w =
     (case make_request env etl ''lists'' (Some [(''count'', JInt 1000)]) w of
        (Inl e, w1) \<Rightarrow> (Inl e, w1)
      | (Inr response, w1) \<Rightarrow>
          (bind_result (py_get response ''lists'' (JArr [])) (\<lambda>ls.
           bind_result (py_iter ls) (map_result list_row)), w1))"

definition campaign_row :: "json \<Rightarrow> json \<Rightarrow> json \<Rightarrow> row result" where
  "campaign_row campaign campaign_id stats =
     bind_result (py_get2 campaign ''settings'' ''subject_line'' (JStr ''Unknown'')) (\<lambda>v_name.
     bind_result (py_get2 campaign ''recipients'' ''list_id'' JNull) (\<lambda>v_list.
     bind_result (py_get campaign ''send_time'' JNull) (\<lambda>v_send.
     bind_result (py_get stats ''emails_sent'' (JInt 0)) (\<lambda>v_sent.
     bind_result (py_get2 stats ''opens'' ''opens_total'' (JInt 0)) (\<lambda>v_opens.
     bind_result (py_get2 stats ''opens'' ''unique_opens'' (JInt 0)) (\<lambda>v_uopens.
     bind_result (py_get2 stats ''opens'' ''open_rate'' (JInt 0)) (\<lambda>v_orate.
     bind_result (py_get2 stats ''clicks'' ''clicks_total'' (JInt 0)) (\<lambda>v_clicks.
     bind_result (py_get2 stats ''clicks'' ''unique_clicks'' (JInt 0)) (\<lambda>v_uclicks.
     bind_result (py_get2 stats ''clicks'' ''click_rate'' (JInt 0)) (\<lambda>v_crate.
     bind_result (py_get2 stats ''unsubscribed'' ''unsubscribes'' (JInt 0)) (\<lambda>v_unsub.
     bind_result (py_get2 stats ''bounces'' ''hard_bounces'' (JInt 0)) (\<lambda>v_hard.
     bind_result (py_get2 stats ''bounces'' ''soft_bounces'' (JInt 0)) (\<lambda>v_soft.
     bind_result (py_add v_hard v_soft) (\<lambda>v_bounces.
     bind_result (py_get campaign ''type'' (JStr ''regular'')) (\<lambda>v_type.
     bind_result (py_get campaign ''status'' JNull) (\<lambda>v_status.
     Inr [(''campaign_id'', campaign_id), (''campaign_name'', v_name), (''list_id'', v_list),
          (''send_time'', v_send), (''emails_sent'', v_sent), (''opens'', v_opens),
          (''unique_opens'', v_uopens), (''open_rate'', v_orate), (''clicks'', v_clicks),
          (''unique_clicks'', v_uclicks), (''click_rate'', v_crate),
          (''unsubscribes'', v_unsub), (''bounces'', v_bounces),
          (''campaign_type'', v_type), (''status'', v_status)]))))))))))))))))"

text \<open>The body of the loop over the listed campaigns: one detail request per campaign,
  then the fixed delay.\<close>

fun campaigns_loop :: "env \<Rightarrow> mailchimp_etl \<Rightarrow> json list \<Rightarrow> row list \<Rightarrow> row list io" where
  "campaigns_loop env etl [] campaigns_data w = (Inr campaigns_data, w)"
| "campaigns_loop env etl (campaign # rest) campaigns_data w =
     (case py_index campaign ''id'' of
        Inl e \<Rightarrow> (Inl e, w)
      | Inr campaign_id \<Rightarrow>
          (case make_request env etl (''campaigns/'' @ py_str env campaign_id) None w of
             (Inl e, w1) \<Rightarrow> (Inl e, w1)
           | (Inr stats, w1) \<Rightarrow>
               (case campaign_row campaign campaign_id stats of
                  Inl e \<Rightarrow> (Inl e, w1)
                | Inr r \<Rightarrow>
                    campaigns_loop env etl rest (campaigns_data @ [r]) (sleep (1 / 10) w1))))"

definition extract_campaigns :: "env \<Rightarrow> mailchimp_etl \<Rightarrow> string option \<Rightarrow> row list io" where
  "extract_campaigns env etl since_date w =
     (let ps = [(''count'', JInt 1000), (''status'', JStr ''sent'')];
          ps = (case since_date of
                  None \<Rightarrow> ps
                | Some d \<Rightarrow> if d \<noteq> [] then ps @ [(''since_send_time'', JStr d)] else ps)
      in case make_request env etl ''campaigns'' (Some ps) w of
           (Inl e, w1) \<Rightarrow> (Inl e, w1)
         | (Inr response, w1) \<Rightarrow>
             (case bind_result (py_get response ''campaigns'' (JArr [])) py_iter of
                Inl e \<Rightarrow> (Inl e, w1)
              | Inr cs \<Rightarrow> campaigns_loop env etl cs [] w1))"

definition member_row :: "json \<Rightarrow> json \<Rightarrow> row result" where
  "member_row list_id member =
     bind_result (py_get member ''location'' (JObj [])) (\<lambda>location.
     bind_result (py_index member ''id'') (\<lambda>v_id.
     bind_result (py_index member ''email_address'') (\<lambda>v_email.
     bind_result (py_index member ''status'') (\<lambda>v_status.
     bind_result (py_get member ''timestamp_signup'' JNull) (\<lambda>v_signup.
     bind_result (py_get member ''timestamp_opt'' JNull) (\<lambda>v_opt.
     bind_result (py_get location ''country_code'' JNull) (\<lambda>v_country.
     bind_result (py_get location ''timezone'' JNull) (\<lambda>v_tz.
     bind_result (py_get location ''latitude'' JNull) (\<lambda>v_lat.
     bind_result (py_get location ''longitude'' JNull) (\<lambda>v_lon.
     bind_result (py_get member ''ip_signup'' JNull) (\<lambda>v_ips.
     bind_result (py_get member ''ip_opt'' JNull) (\<lambda>v_ipo.
     bind_result (py_get member ''language'' JNull) (\<lambda>v_lang.
     bind_result (py_get member ''member_rating'' (JInt 0)) (\<lambda>v_rating.
     bind_result (py_get member ''email_client'' JNull) (\<lambda>v_client.
     bind_result (py_get member ''tags_count'' (JInt 0)) (\<lambda>v_tags.
     Inr [(''member_id'', v_id), (''email'', v_email), (''status'', v_status),
          (''list_id'', list_id), (''timestamp_signup'', v_signup), (''timestamp_opt'', v_opt),
          (''country_code'', v_country), (''timezone'', v_tz), (''latitude'', v_lat),
          (''longitude'', v_lon), (''ip_signup'', v_ips), (''ip_opt'', v_ipo),
          (''language'', v_lang), (''member_rating'', v_rating),
          (''email_client'', v_client), (''tags_count'', v_tags)]))))))))))))))))"

definition members_params :: "int \<Rightarrow> int \<Rightarrow> string \<Rightarrow> (string \<times> json) list" where
  "members_params count offset status =
     [(''count'', JInt count), (''offset'', JInt offset), (''status'', JStr status)]"

definition members_endpoint :: "env \<Rightarrow> json \<Rightarrow> string" where
  "members_endpoint env list_id = ''lists/'' @ py_str env list_id @ ''/members''"

text \<open>The \<^verbatim>\<open>while True\<close> loop of \<^verbatim>\<open>extract_members\<close>. It ends only when a page is
  empty (or a request or a member fails), so it is a partial function: \<open>None\<close> means
  that the loop never returns.\<close>

partial_function (option) members_loop ::
  "env \<Rightarrow> mailchimp_etl \<Rightarrow> json \<Rightarrow> string \<Rightarrow> int \<Rightarrow> row list \<Rightarrow> int \<Rightarrow> world
     \<Rightarrow> (row list result \<times> world) option" where
  "members_loop env etl list_id status count members_data offset w =
     (case make_request env etl (members_endpoint env list_id)
             (Some (members_params count offset status)) w of
        (Inl e, w1) \<Rightarrow> Some (Inl e, w1)
      | (Inr response, w1) \<Rightarrow>
          (case py_get response ''members'' (JArr []) of
             Inl e \<Rightarrow> Some (Inl e, w1)
           | Inr members \<Rightarrow>
               if \<not> py_truthy members then Some (Inr members_data, w1)
               else (case bind_result (py_iter members) (map_result (member_row list_id)) of
                       Inl e \<Rightarrow> Some (Inl e, w1)
                     | Inr new_rows \<Rightarrow>
                         members_loop env etl list_id status count (members_data @ new_rows)
                           (offset + count) (sleep (1 / 10) w1))))"

definition extract_members ::
  "env \<Rightarrow> mailchimp_etl \<Rightarrow> json \<Rightarrow> string \<Rightarrow> world \<Rightarrow> (row list result \<times> world) option" where
  "extract_members env etl list_id status w = members_loop env etl list_id status 1000 [] 0 w"


subsection \<open>Tables\<close>

text \<open>
  \<open>DataFrame rows\<close> is \<^verbatim>\<open>pd.DataFrame(rows)\<close> for a list of dicts: the columns are the
  keys in order of first appearance, a key missing from a row gives a missing cell.
  Arithmetic on columns is the vectorised one of numeric columns: a number divided by
  zero is an infinity, zero divided by zero is missing, a missing operand gives a missing
  result. On a column that holds anything but numbers and missing values the operations
  raise.
\<close>

fun cell_of :: "json \<Rightarrow> cell" where
  "cell_of JNull = NA"
| "cell_of (JInt i) = Num (of_int i)"
| "cell_of (JReal r) = Num r"
| "cell_of (JStr s) = Str s"
| "cell_of j = Obj j"

definition df_columns :: "(string \<times> cell) list list \<Rightarrow> string list" where
  "df_columns records = rev (remdups (rev (concat (map (map fst) records))))"

definition row_cell :: "string \<Rightarrow> (string \<times> cell) list \<Rightarrow> cell" where
  "row_cell c r = (case map_of r c of None \<Rightarrow> NA | Some v \<Rightarrow> v)"

definition frame_of :: "(string \<times> cell) list list \<Rightarrow> dataframe" where
  "frame_of records =
     \<lparr>nrows = length records,
      cols = map (\<lambda>c. (c, map (row_cell c) records)) (df_columns records)\<rparr>"

definition DataFrame :: "row list \<Rightarrow> dataframe" where
  "DataFrame raw_data = frame_of (map (map (\<lambda>(k, v). (k, cell_of v))) raw_data)"

definition df_empty :: "dataframe \<Rightarrow> bool" where
  "df_empty df = (nrows df = 0 \<or> cols df = [])"

definition has_col :: "dataframe \<Rightarrow> string \<Rightarrow> bool" where
  "has_col df c = (c \<in> set (map fst (cols df)))"

definition get_col :: "dataframe \<Rightarrow> string \<Rightarrow> cell list result" where
  "get_col df c = (case map_of (cols df) c of None \<Rightarrow> Inl (KeyError c) | Some v \<Rightarrow> Inr v)"

definition set_col :: "dataframe \<Rightarrow> string \<Rightarrow> cell list \<Rightarrow> dataframe" where
  "set_col df c v = df\<lparr>cols := AList.update c v (cols df)\<rparr>"

definition set_scalar :: "dataframe \<Rightarrow> string \<Rightarrow> cell \<Rightarrow> dataframe" where
  "set_scalar df c v = set_col df c (replicate (nrows df) v)"

fun numeric :: "cell \<Rightarrow> bool" where
  "numeric NA = True"
| "numeric (Num x) = True"
| "numeric PInf = True"
| "numeric NInf = True"
| "numeric _ = False"

fun cell_add :: "cell \<Rightarrow> cell \<Rightarrow> cell" where
  "cell_add (Num a) (Num b) = Num (a + b)"
| "cell_add PInf NInf = NA"
| "cell_add NInf PInf = NA"
| "cell_add PInf (Num b) = PInf"
| "cell_add PInf PInf = PInf"
| "cell_add (Num a) PInf = PInf"
| "cell_add NInf (Num b) = NInf"
| "cell_add NInf NInf = NInf"
| "cell_add (Num a) NInf = NInf"
| "cell_add _ _ = NA"

definition inf_of_sign :: "real \<Rightarrow> cell" where
  "inf_of_sign x = (if x = 0 then NA else if 0 < x then PInf else NInf)"

fun cell_mul :: "cell \<Rightarrow> cell \<Rightarrow> cell" where
  "cell_mul (Num a) (Num b) = Num (a * b)"
| "cell_mul PInf (Num b) = inf_of_sign b"
| "cell_mul NInf (Num b) = inf_of_sign (- b)"
| "cell_mul (Num a) PInf = inf_of_sign a"
| "cell_mul (Num a) NInf = inf_of_sign (- a)"
| "cell_mul PInf PInf = PInf"
| "cell_mul NInf NInf = PInf"
| "cell_mul PInf NInf = NInf"
| "cell_mul NInf PInf = NInf"
| "cell_mul _ _ = NA"

fun cell_div :: "cell \<Rightarrow> cell \<Rightarrow> cell" where
  "cell_div (Num a) (Num b) = (if b = 0 then inf_of_sign a else Num (a / b))"
| "cell_div PInf (Num b) = (if 0 \<le> b then PInf else NInf)"
| "cell_div NInf (Num b) = (if 0 \<le> b then NInf else PInf)"
| "cell_div (Num a) PInf = Num 0"
| "cell_div (Num a) NInf = Num 0"
| "cell_div _ _ = NA"

definition col_op :: "(cell \<Rightarrow> cell \<Rightarrow> cell) \<Rightarrow> cell list \<Rightarrow> cell list \<Rightarrow> cell list result" where
  "col_op f a b =
     (if list_all numeric a \<and> list_all numeric b then Inr (map (\<lambda>(x, y). f x y) (zip a b))
      else Inl TypeError)"

definition col_scale :: "cell list \<Rightarrow> real \<Rightarrow> cell list result" where
  "col_scale a k = (if list_all numeric a then Inr (map (\<lambda>x. cell_mul x (Num k)) a) else Inl TypeError)"

definition fillna :: "cell list \<Rightarrow> cell \<Rightarrow> cell list" where
  "fillna a v = map (\<lambda>x. if x = NA then v else x) a"

definition fillna_col :: "cell list \<Rightarrow> cell list \<Rightarrow> cell list" where
  "fillna_col a b = map (\<lambda>(x, y). if x = NA then y else x) (zip a b)"

text \<open>\<^verbatim>\<open>pd.cut(x, bins, labels)\<close> with its defaults \<^verbatim>\<open>right=True\<close> and
  \<^verbatim>\<open>include_lowest=False\<close>: the \<open>i\<close>-th label is given to the values \<open>v\<close> with
  \<open>bins[i] < v \<le> bins[i+1]\<close>; a value in no interval is missing.\<close>

fun cut_value :: "real \<Rightarrow> real list \<Rightarrow> string list \<Rightarrow> cell" where
  "cut_value v (lo # hi # bins) (l # labels) =
     (if lo < v \<and> v \<le> hi then Str l else cut_value v (hi # bins) labels)"
| "cut_value v _ _ = NA"

fun cut_cell :: "real list \<Rightarrow> string list \<Rightarrow> cell \<Rightarrow> cell" where
  "cut_cell bins labels (Num v) = cut_value v bins labels"
| "cut_cell bins labels _ = NA"

definition cut :: "cell list \<Rightarrow> real list \<Rightarrow> string list \<Rightarrow> cell list result" where
  "cut a bins labels =
     (if list_all numeric a then Inr (map (cut_cell bins labels) a) else Inl TypeError)"

text \<open>\<^verbatim>\<open>Series.map(dict)\<close>: a value that is not a key of the dict becomes missing.\<close>

fun map_cell :: "(string \<times> string) list \<Rightarrow> cell \<Rightarrow> cell" where
  "map_cell m (Str s) = (case map_of m s of None \<Rightarrow> NA | Some n \<Rightarrow> Str n)"
| "map_cell m c = NA"


subsection \<open>Transformer\<close>

text \<open>The three places that parse a timestamp column and strip its timezone share one
  shape in the source; \<open>parse_datetime_col\<close> is that shape.\<close>

definition parse_datetime_col :: "env \<Rightarrow> dataframe \<Rightarrow> string \<Rightarrow> dataframe result" where
  "parse_datetime_col env df c =
     bind_result (get_col df c) (\<lambda>raw.
     bind_result (to_datetime env raw) (\<lambda>parsed.
     Inr (set_col df c (if dt_tz env parsed then tz_localize_none env parsed else parsed))))"

definition country_mapping :: "(string \<times> string) list" where
  "country_mapping =
     [(''UA'', ''Ukraine''), (''RU'', ''Russia''), (''US'', ''United States''),
      (''GB'', ''United Kingdom''), (''DE'', ''Germany''), (''FR'', ''France'')]"

definition transform_campaigns :: "env \<Rightarrow> dataframe \<Rightarrow> dataframe result" where
  "transform_campaigns env df =
     bind_result
       (if has_col df ''send_time'' then
          bind_result (parse_datetime_col env df ''send_time'') (\<lambda>df.
          bind_result (get_col df ''send_time'') (\<lambda>t.
          Inr (set_col (set_col df ''send_date'' (dt_date env t)) ''send_hour'' (dt_hour env t))))
        else Inr df) (\<lambda>df.
     bind_result (get_col df ''unique_opens'') (\<lambda>uo.
     bind_result (get_col df ''unique_clicks'') (\<lambda>uc.
     bind_result (col_op cell_add uo uc) (\<lambda>total.
     bind_result (get_col df ''emails_sent'') (\<lambda>sent.
     bind_result (col_op cell_div total sent) (\<lambda>ratio.
     bind_result (col_scale ratio 100) (\<lambda>rate.
     let df = set_col df ''engagement_rate'' rate;
         df = set_col df ''engagement_rate'' (fillna rate (Num 0))
     in
     bind_result (get_col df ''open_rate'') (\<lambda>orate.
     bind_result (col_scale orate 100) (\<lambda>pct.
     bind_result (cut pct [0, 15, 25, 35, 100] [''Low'', ''Medium'', ''High'', ''Excellent''])
       (\<lambda>cat.
     Inr (set_col df ''performance_category'' cat)))))))))))"

definition transform_members :: "env \<Rightarrow> dataframe \<Rightarrow> dataframe io" where
  "transform_members env df w =
     (case bind_result
             (if has_col df ''timestamp_signup''
              then parse_datetime_col env df ''timestamp_signup'' else Inr df) (\<lambda>df.
           bind_result
             (if has_col df ''timestamp_opt''
              then parse_datetime_col env df ''timestamp_opt'' else Inr df) (\<lambda>df.
           if has_col df ''country_code'' then
             bind_result (get_col df ''country_code'') (\<lambda>code.
             let df = set_col df ''country_name'' (map (map_cell country_mapping) code)
             in bind_result (get_col df ''country_name'') (\<lambda>name.
                bind_result (get_col df ''country_code'') (\<lambda>code.
                Inr (set_col df ''country_name'' (fillna_col name code)))))
           else Inr df)) of
        Inl e \<Rightarrow> (Inl e, w)
      | Inr df \<Rightarrow>
          if has_col df ''timestamp_signup'' then
            (case now env w of (t, w1) \<Rightarrow>
               (bind_result (get_col df ''timestamp_signup'') (\<lambda>signup.
                bind_result (days_between env t signup) (\<lambda>days.
                Inr (set_col df ''days_since_signup'' days))), w1))
          else (Inr df, w))"

definition transform_lists :: "env \<Rightarrow> dataframe \<Rightarrow> dataframe result" where
  "transform_lists env df =
     bind_result
       (if has_col df ''date_created''
        then parse_datetime_col env df ''date_created'' else Inr df) (\<lambda>df.
     bind_result (get_col df ''unsubscribe_count'') (\<lambda>unsub.
     bind_result (get_col df ''member_count'') (\<lambda>members.
     bind_result (col_op cell_div unsub members) (\<lambda>ratio.
     bind_result (col_scale ratio 100) (\<lambda>rate.
     Inr (set_col df ''unsubscribe_rate'' (fillna rate (Num 0))))))))"

definition transform_data :: "env \<Rightarrow> string \<Rightarrow> row list \<Rightarrow> dataframe io" where
  "transform_data env data_type raw_data w =
     (let df = DataFrame raw_data in
      if df_empty df then (Inr df, w)
      else
        (case (if data_type = ''campaigns'' then (transform_campaigns env df, w)
               else if data_type = ''members'' then transform_members env df w
               else if data_type = ''lists'' then (transform_lists env df, w)
               else (Inr df, w)) of
           (Inl e, w1) \<Rightarrow> (Inl e, w1)
         | (Inr df, w1) \<Rightarrow>
             (case now env w1 of (t, w2) \<Rightarrow>
                (Inr (set_scalar (set_scalar df ''extracted_at'' (Time t))
                        ''data_source'' (Str ''mailchimp'')), w2))))"


subsection \<open>Loader\<close>

text \<open>\<^verbatim>\<open>str.lower()\<close> and \<^verbatim>\<open>str.capitalize()\<close> on ASCII letters.\<close>

definition lower_char :: "char \<Rightarrow> char" where
  "lower_char c =
     (case map_of (zip ''ABCDEFGHIJKLMNOPQRSTUVWXYZ'' ''abcdefghijklmnopqrstuvwxyz'') c of
        None \<Rightarrow> c | Some d \<Rightarrow> d)"

definition upper_char :: "char \<Rightarrow> char" where
  "upper_char c =
     (case map_of (zip ''abcdefghijklmnopqrstuvwxyz'' ''ABCDEFGHIJKLMNOPQRSTUVWXYZ'') c of
        None \<Rightarrow> c | Some d \<Rightarrow> d)"

definition lower :: "string \<Rightarrow> string" where
  "lower s = map lower_char s"

fun capitalize :: "string \<Rightarrow> string" where
  "capitalize [] = []"
| "capitalize (c # cs) = upper_char c # lower cs"

datatype artifact = Path string | Paths "string list"

definition makedirs :: "string \<Rightarrow> world \<Rightarrow> world" where
  "makedirs d w = (if d \<in> set (dirs w) then w else w\<lparr>dirs := dirs w @ [d]\<rparr>)"

definition write_file :: "string \<Rightarrow> file_content \<Rightarrow> world \<Rightarrow> world" where
  "write_file name content w = w\<lparr>files := AList.update name content (files w)\<rparr>"

definition summary_frame :: "(string \<times> cell) list \<Rightarrow> dataframe" where
  "summary_frame summary_data =
     (if summary_data = [] then \<lparr>nrows = 0, cols = []\<rparr>
      else \<lparr>nrows = length summary_data,
            cols = [(''Metric'', map (\<lambda>r. Str (fst r)) summary_data),
                    (''Value'', map snd summary_data)]\<rparr>)"

definition present :: "(string \<times> dataframe) list \<Rightarrow> string \<Rightarrow> dataframe option" where
  "present dataframes_dict k =
     (case map_of dataframes_dict k of
        None \<Rightarrow> None
      | Some df \<Rightarrow> if df_empty df then None else Some df)"

definition create_summary_dashboard ::
  "env \<Rightarrow> (string \<times> dataframe) list \<Rightarrow> dataframe result" where
  "create_summary_dashboard env dataframes_dict =
     bind_result
       (case present dataframes_dict ''campaigns'' of
          None \<Rightarrow> Inr []
        | Some campaigns_df \<Rightarrow>
            bind_result (get_col campaigns_df ''open_rate'') (\<lambda>orate.
            bind_result (fmt_mean_pct env orate) (\<lambda>avg_open.
            bind_result (get_col campaigns_df ''click_rate'') (\<lambda>crate.
            bind_result (fmt_mean_pct env crate) (\<lambda>avg_click.
            bind_result (get_col campaigns_df ''emails_sent'') (\<lambda>sent.
            bind_result (col_sum env sent) (\<lambda>total_sent.
            Inr [(''Total Campaigns'', Num (of_nat (nrows campaigns_df))),
                 (''Avg Open Rate (%)'', Str avg_open),
                 (''Avg Click Rate (%)'', Str avg_click),
                 (''Total Emails Sent'', total_sent)]))))))) (\<lambda>part1.
     bind_result
       (case present dataframes_dict ''lists'' of
          None \<Rightarrow> Inr []
        | Some lists_df \<Rightarrow>
            bind_result (get_col lists_df ''member_count'') (\<lambda>members.
            bind_result (col_sum env members) (\<lambda>total_members.
            bind_result (get_col lists_df ''unsubscribe_count'') (\<lambda>unsub.
            bind_result (col_sum env unsub) (\<lambda>total_unsub.
            Inr [(''Total Lists'', Num (of_nat (nrows lists_df))),
                 (''Total Subscribers'', total_members),
                 (''Total Unsubscribes'', total_unsub)]))))) (\<lambda>part2.
     bind_result
       (case present dataframes_dict ''members'' of
          None \<Rightarrow> Inr []
        | Some members_df \<Rightarrow>
            if has_col members_df ''country_name'' then
              bind_result (get_col members_df ''country_name'') (\<lambda>names.
              Inr (map (\<lambda>(country, count). (''Subscribers in '' @ country, Num (of_nat count)))
                     (value_counts_head env 5 names)))
            else Inr []) (\<lambda>part3.
     Inr (summary_frame (part1 @ part2 @ part3)))))"

definition non_empty_tables :: "(string \<times> dataframe) list \<Rightarrow> (string \<times> dataframe) list" where
  "non_empty_tables dataframes_dict = filter (\<lambda>(data_type, df). \<not> df_empty df) dataframes_dict"

definition csv_name :: "string \<Rightarrow> string \<Rightarrow> string \<Rightarrow> string" where
  "csv_name output_path data_type timestamp =
     ''output/'' @ output_path @ ''_'' @ data_type @ ''_'' @ timestamp @ ''.csv''"

text \<open>
  \<^verbatim>\<open>load_data\<close>. When no branch of the format test is taken, the local \<^verbatim>\<open>filename\<close> is
  never assigned and the log line that reads it raises \<^verbatim>\<open>UnboundLocalError\<close>. The
  workbook is written by a context manager that saves on exit, also when the summary
  raises inside it.
\<close>

definition load_data ::
  "env \<Rightarrow> (string \<times> dataframe) list \<Rightarrow> string \<Rightarrow> string \<Rightarrow> artifact io" where
  "load_data env dataframes_dict output_format output_path w =
     (let w = makedirs ''output'' w in
      case now env w of (t, w) \<Rightarrow>
      let timestamp = strftime env t in
      if lower output_format = ''excel'' then
        (let filename = ''output/'' @ output_path @ ''_'' @ timestamp @ ''.xlsx'';
             sheets = map (\<lambda>(data_type, df). (take 31 (capitalize data_type), df))
                        (non_empty_tables dataframes_dict)
         in case create_summary_dashboard env dataframes_dict of
              Inl e \<Rightarrow> (Inl e, write_file filename (Xlsx sheets) w)
            | Inr summary_df \<Rightarrow>
                (Inr (Path filename),
                 write_file filename
                   (Xlsx (if \<not> df_empty summary_df then sheets @ [(''Dashboard'', summary_df)]
                          else sheets)) w))
      else if lower output_format = ''csv'' then
        (let filenames = map (\<lambda>(data_type, df). csv_name output_path data_type timestamp)
                           (non_empty_tables dataframes_dict)
         in (Inr (Paths filenames),
             fold (\<lambda>(data_type, df). write_file (csv_name output_path data_type timestamp) (Csv df))
               (non_empty_tables dataframes_dict) w))
      else if lower output_format = ''json'' then
        (let filename = ''output/'' @ output_path @ ''_'' @ timestamp @ ''.json''
         in (Inr (Path filename),
             write_file filename (JsonRecords (non_empty_tables dataframes_dict)) w))
      else (Inl (UnboundLocalError ''filename''), w))"

subsection \<open>Orchestration\<close>

fun members_for ::
  "env \<Rightarrow> mailchimp_etl \<Rightarrow> json list \<Rightarrow> row list \<Rightarrow> world
     \<Rightarrow> (row list result \<times> world) option" where
  "members_for env etl [] all_members_data w = Some (Inr all_members_data, w)"
| "members_for env etl (list_id # rest) all_members_data w =
     (case extract_members env etl list_id ''subscribed'' w of
        None \<Rightarrow> None
      | Some (Inl e, w1) \<Rightarrow> Some (Inl e, w1)
      | Some (Inr members_data, w1) \<Rightarrow>
          members_for env etl rest (all_members_data @ members_data) w1)"

definition row_index :: "row \<Rightarrow> string \<Rightarrow> json result" where
  "row_index r k = (case map_of r k of None \<Rightarrow> Inl (KeyError k) | Some v \<Rightarrow> Inr v)"

text \<open>The list ids whose members are extracted: the caller's, when it gave a non-empty
  list; otherwise those of at most the first three extracted lists.\<close>

definition member_list_ids :: "json list option \<Rightarrow> row list \<Rightarrow> json list result" where
  "member_list_ids specific_list_ids lists_data =
     (case specific_list_ids of
        Some ids \<Rightarrow>
          if ids \<noteq> [] then Inr ids
          else map_result (\<lambda>item. row_index item ''list_id'') (take 3 lists_data)
      | None \<Rightarrow> map_result (\<lambda>item. row_index item ''list_id'') (take 3 lists_data))"

definition run_etl ::
  "env \<Rightarrow> mailchimp_etl \<Rightarrow> bool \<Rightarrow> json list option \<Rightarrow> string option \<Rightarrow> string \<Rightarrow> world
     \<Rightarrow> (artifact result \<times> world) option" where
  "run_etl env etl include_members specific_list_ids since_date output_format w =
     (case extract_lists env etl w of
        (Inl e, w) \<Rightarrow> Some (Inl e, w)
      | (Inr lists_data, w) \<Rightarrow>
     (case transform_data env ''lists'' lists_data w of
        (Inl e, w) \<Rightarrow> Some (Inl e, w)
      | (Inr lists_df, w) \<Rightarrow>
     (case extract_campaigns env etl since_date w of
        (Inl e, w) \<Rightarrow> Some (Inl e, w)
      | (Inr campaigns_data, w) \<Rightarrow>
     (case transform_data env ''campaigns'' campaigns_data w of
        (Inl e, w) \<Rightarrow> Some (Inl e, w)
      | (Inr campaigns_df, w) \<Rightarrow>
     (let dataframes = [(''lists'', lists_df), (''campaigns'', campaigns_df)] in
      if include_members then
        (case member_list_ids specific_list_ids lists_data of
           Inl e \<Rightarrow> Some (Inl e, w)
         | Inr list_ids \<Rightarrow>
        (case members_for env etl list_ids [] w of
           None \<Rightarrow> None
         | Some (Inl e, w) \<Rightarrow> Some (Inl e, w)
         | Some (Inr all_members_data, w) \<Rightarrow>
             if all_members_data \<noteq> [] then
               (case transform_data env ''members'' all_members_data w of
                  (Inl e, w) \<Rightarrow> Some (Inl e, w)
                | (Inr members_df, w) \<Rightarrow>
                    Some (load_data env (dataframes @ [(''members'', members_df)])
                            output_format ''mailchimp_data'' w))
             else Some (load_data env dataframes output_format ''mailchimp_data'' w)))
      else Some (load_data env dataframes output_format ''mailchimp_data'' w))))))"


text \<open>What the trace of a run shows of its requests: the URLs requested, in order, and
  the URL of the member pages of a list.\<close>

fun requested_urls :: "event list \<Rightarrow> string list" where
  "requested_urls [] = []"
| "requested_urls (Get req # evs) = url req # requested_urls evs"
| "requested_urls (Sleep d # evs) = requested_urls evs"

definition members_url :: "env \<Rightarrow> mailchimp_etl \<Rightarrow> json \<Rightarrow> string" where
  "members_url env etl list_id = base_url etl @ ''/'' @ members_endpoint env list_id"

section \<open>The Google Analytics pipeline\<close>

record ga_row =
  dimension_values :: "string list"
  metric_values :: "string list"

record ga_response =
  dimension_headers :: "string list"
  metric_headers :: "string list"
  report_rows :: "ga_row list"

text \<open>The two \<^verbatim>\<open>enumerate\<close> loops that fill \<^verbatim>\<open>row_data\<close>: the \<open>i\<close>-th value is stored
  under the \<open>i\<close>-th header name, and a value with no header raises \<^verbatim>\<open>IndexError\<close>.\<close>

fun add_dimensions ::
  "string list \<Rightarrow> string list \<Rightarrow> (string \<times> cell) list \<Rightarrow> (string \<times> cell) list result" where
  "add_dimensions names [] row_data = Inr row_data"
| "add_dimensions [] (v # vs) row_data = Inl IndexError"
| "add_dimensions (n # names) (v # vs) row_data =
     add_dimensions names vs (AList.update n (Str v) row_data)"

definition convert_metric :: "env \<Rightarrow> string \<Rightarrow> string \<Rightarrow> cell result" where
  "convert_metric env metric_name v =
     (if metric_name \<in> set [''sessions'', ''totalUsers'', ''screenPageViews''] then
        (if v \<noteq> ''0'' then
           (case py_int env v of None \<Rightarrow> Inl ValueError | Some i \<Rightarrow> Inr (Num (of_int i)))
         else Inr (Num 0))
      else if metric_name \<in> set [''userEngagementDuration''] then
        (if v \<noteq> ''0.0'' then
           (case py_float env v of None \<Rightarrow> Inl ValueError | Some x \<Rightarrow> Inr x)
         else Inr (Num 0))
      else Inr (Str v))"

fun add_metrics ::
  "env \<Rightarrow> string list \<Rightarrow> string list \<Rightarrow> (string \<times> cell) list
     \<Rightarrow> (string \<times> cell) list result" where
  "add_metrics env names [] row_data = Inr row_data"
| "add_metrics env [] (v # vs) row_data = Inl IndexError"
| "add_metrics env (n # names) (v # vs) row_data =
     (case convert_metric env n v of
        Inl e \<Rightarrow> Inl e
      | Inr c \<Rightarrow> add_metrics env names vs (AList.update n c row_data))"

definition ga_row_data :: "env \<Rightarrow> ga_response \<Rightarrow> ga_row \<Rightarrow> (string \<times> cell) list result" where
  "ga_row_data env resp r =
     bind_result (add_dimensions (dimension_headers resp) (dimension_values r) [])
       (add_metrics env (metric_headers resp) (metric_values r))"

fun clean_country :: "env \<Rightarrow> cell \<Rightarrow> cell" where
  "clean_country env (Str s) =
     (let t = str_title env (str_strip env s) in
      Str (case map_of [(''Russian Federation'', ''Russia''), (''United States'', ''USA'')] t of
             None \<Rightarrow> t | Some u \<Rightarrow> u))"
| "clean_country env c = NA"

definition ga_transform_data :: "env \<Rightarrow> ga_response \<Rightarrow> dataframe io" where
  "ga_transform_data env resp w =
     (case bind_result (map_result (ga_row_data env resp) (report_rows resp)) (\<lambda>data.
           let df = frame_of data in
           bind_result
             (if has_col df ''date'' then
                bind_result (get_col df ''date'') (\<lambda>d.
                bind_result (to_datetime env d) (\<lambda>parsed. Inr (set_col df ''date'' parsed)))
              else Inr df) (\<lambda>df.
           bind_result
             (if has_col df ''country'' then
                bind_result (get_col df ''country'') (\<lambda>c.
                Inr (set_col df ''country'' (map (clean_country env) c)))
              else Inr df) (\<lambda>df.
           if has_col df ''userEngagementDuration'' \<and> has_col df ''sessions'' then
             bind_result (get_col df ''userEngagementDuration'') (\<lambda>duration.
             bind_result (get_col df ''sessions'') (\<lambda>sessions.
             bind_result (col_op cell_div duration sessions) (\<lambda>avg.
             let df = set_col df ''avg_engagement_duration'' avg
             in Inr (set_col df ''avg_engagement_duration'' (fillna avg (Num 0))))))
           else Inr df))) of
        Inl e \<Rightarrow> (Inl e, w)
      | Inr df \<Rightarrow>
          (case now env w of (t, w1) \<Rightarrow> (Inr (set_scalar df ''extracted_at'' (Time t)), w1)))"

definition ga_create_summary :: "env \<Rightarrow> dataframe \<Rightarrow> dataframe result" where
  "ga_create_summary env df =
     (if has_col df ''country'' then top_countries env df else Inr \<lparr>nrows = 0, cols = []\<rparr>)"

definition ga_load_data :: "env \<Rightarrow> dataframe \<Rightarrow> string \<Rightarrow> string \<Rightarrow> string io" where
  "ga_load_data env df output_format output_path w =
     (let w = makedirs ''output'' w in
      case now env w of (t, w) \<Rightarrow>
      let timestamp = strftime env t in
      if lower output_format = ''csv'' then
        (let filename = ''output/'' @ output_path @ ''_'' @ timestamp @ ''.csv''
         in (Inr filename, write_file filename (Csv df) w))
      else if lower output_format = ''excel'' then
        (let filename = ''output/'' @ output_path @ ''_'' @ timestamp @ ''.xlsx''
         in case ga_create_summary env df of
              Inl e \<Rightarrow> (Inl e, write_file filename (Xlsx [(''GA_Data'', df)]) w)
            | Inr summary \<Rightarrow>
                (Inr filename,
                 write_file filename (Xlsx [(''GA_Data'', df), (''Summary'', summary)]) w))
      else if lower output_format = ''json'' then
        (let filename = ''output/'' @ output_path @ ''_'' @ timestamp @ ''.json''
         in (Inr filename, write_file filename (JsonTable df) w))
      else (Inl (UnboundLocalError ''filename''), w))"


section \<open>Concrete inputs for the closed examples\<close>

text \<open>
  An environment for the examples below. Its server answers no request (the examples
  that need a server replace \<open>http_get\<close>), and its library operations are the real ones
  restricted to the inputs the examples use: timestamp columns whose every entry is
  missing (they parse to missing timestamps without a timezone) and numeric columns of
  zeros (mean and sum are zero).
\<close>

definition quiet_env :: env where
  "quiet_env =
     \<lparr>http_get = (\<lambda>k req. None),
      wall_clock = (\<lambda>k. 1700000000 + int k),
      py_str = (\<lambda>j. case j of JStr s \<Rightarrow> s | _ \<Rightarrow> ''None''),
      py_int = (\<lambda>s. if s = ''7'' then Some 7 else None),
      py_float = (\<lambda>s. if s = ''21.0'' then Some (Num 21) else None),
      strftime = (\<lambda>t. ''20231114_221320''),
      str_strip = (\<lambda>s. s),
      str_title = (\<lambda>s. s),
      to_datetime = (\<lambda>c. if list_all (\<lambda>x. x = NA) c then Inr c else Inl ValueError),
      dt_tz = (\<lambda>c. False),
      tz_localize_none = (\<lambda>c. c),
      dt_date = (\<lambda>c. c),
      dt_hour = (\<lambda>c. c),
      days_between = (\<lambda>t c. if list_all (\<lambda>x. x = NA) c then Inr c else Inl TypeError),
      fmt_mean_pct = (\<lambda>c. if list_all (\<lambda>x. x = Num 0) c then Inr ''0.00'' else Inl TypeError),
      col_sum = (\<lambda>c. if list_all (\<lambda>x. x = Num 0) c then Inr (Num 0) else Inl TypeError),
      value_counts_head = (\<lambda>n c. []),
      top_countries = (\<lambda>df. Inr \<lparr>nrows = 0, cols = []\<rparr>)\<rparr>"

definition w0 :: world where
  "w0 = \<lparr>trace = [], clock_reads = 0, dirs = [], files = []\<rparr>"

definition demo_etl :: mailchimp_etl where
  "demo_etl = \<lparr>api_key = ''0123456789abcdef-us1'', server_prefix = ''us1''\<rparr>"

text \<open>A campaign row as \<^verbatim>\<open>extract_campaigns\<close> builds it, with the given open rate,
  number of emails sent, unique opens and unique clicks.\<close>

definition campaign_example :: "json \<Rightarrow> json \<Rightarrow> json \<Rightarrow> json \<Rightarrow> row" where
  "campaign_example orate sent uopens uclicks =
     [(''campaign_id'', JStr ''c1''), (''campaign_name'', JStr ''Newsletter''),
      (''list_id'', JStr ''l1''), (''send_time'', JNull), (''emails_sent'', sent),
      (''opens'', JInt 0), (''unique_opens'', uopens), (''open_rate'', orate),
      (''clicks'', JInt 0), (''unique_clicks'', uclicks), (''click_rate'', JInt 0),
      (''unsubscribes'', JInt 0), (''bounces'', JInt 0),
      (''campaign_type'', JStr ''regular''), (''status'', JStr ''sent'')]"

text \<open>A member as the server sends it, and the row \<^verbatim>\<open>extract_members\<close> builds from a
  member with the given country code.\<close>

definition member_json :: "string \<Rightarrow> json" where
  "member_json cc =
     JObj [(''id'', JStr ''m1''), (''email_address'', JStr ''a@example.org''),
           (''status'', JStr ''subscribed''), (''location'', JObj [(''country_code'', JStr cc)])]"

definition member_example :: "string \<Rightarrow> row" where
  "member_example cc =
     [(''member_id'', JStr ''m1''), (''email'', JStr ''a@example.org''),
      (''status'', JStr ''subscribed''), (''list_id'', JStr ''l1''),
      (''timestamp_signup'', JNull), (''timestamp_opt'', JNull), (''country_code'', JStr cc),
      (''timezone'', JNull), (''latitude'', JNull), (''longitude'', JNull),
      (''ip_signup'', JNull), (''ip_opt'', JNull), (''language'', JNull),
      (''member_rating'', JInt 0), (''email_client'', JNull), (''tags_count'', JInt 0)]"

definition list_example :: row where
  "list_example =
     [(''list_id'', JStr ''l1''), (''list_name'', JStr ''Main''), (''member_count'', JInt 10),
      (''unsubscribe_count'', JInt 1), (''open_rate'', JReal (1 / 4)),
      (''click_rate'', JReal (1 / 10)), (''date_created'', JNull),
      (''visibility'', JStr ''pub'')]"


text \<open>Two servers: one that answers the first request with status 429 and every later
  one with status 200 and the given body, and one that answers 200 with that body from
  the start.\<close>

definition rate_limited_once :: "json \<Rightarrow> env" where
  "rate_limited_once body =
     quiet_env\<lparr>http_get := (\<lambda>k req.
       if k = 0 then Some \<lparr>status_code = 429, json_body = Some (JObj [])\<rparr>
       else Some \<lparr>status_code = 200, json_body = Some body\<rparr>)\<rparr>"

definition always_ok :: "json \<Rightarrow> env" where
  "always_ok body =
     quiet_env\<lparr>http_get := (\<lambda>k req. Some \<lparr>status_code = 200, json_body = Some body\<rparr>)\<rparr>"

text \<open>A server that holds the members of a list and answers a page request with
  status 200 and the slice of them that the \<open>offset\<close> and \<open>count\<close> parameters select.\<close>

definition members_server :: "json list \<Rightarrow> env" where
  "members_server all_members =
     quiet_env\<lparr>http_get := (\<lambda>k req.
       case params req of
         None \<Rightarrow> None
       | Some ps \<Rightarrow>
           (case (map_of ps ''offset'', map_of ps ''count'') of
              (Some (JInt offset), Some (JInt count)) \<Rightarrow>
                Some \<lparr>status_code = 200,
                      json_body = Some (JObj [(''members'',
                        JArr (take (nat count) (drop (nat offset) all_members)))])\<rparr>
            | _ \<Rightarrow> None))\<rparr>"

text \<open>A paged member source: from the \<open>k\<close>-th request on, the requests for the offsets
  \<open>offset\<close>, \<open>offset + 1000\<close>, ... of the list are answered with status 200 and the given
  pages, each of them non-empty, and the request after the last of them with an empty
  page.\<close>

fun serves_pages ::
  "env \<Rightarrow> mailchimp_etl \<Rightarrow> json \<Rightarrow> string \<Rightarrow> json list list \<Rightarrow> nat \<Rightarrow> int \<Rightarrow> bool" where
  "serves_pages env etl list_id status [] k offset =
     (case http_get env k (mk_request etl (members_endpoint env list_id)
                             (Some (members_params 1000 offset status))) of
        None \<Rightarrow> False
      | Some resp \<Rightarrow>
          status_code resp = 200 \<and>
          (case json_body resp of
             None \<Rightarrow> False
           | Some j \<Rightarrow> py_get j ''members'' (JArr []) = Inr (JArr [])))"
| "serves_pages env etl list_id status (page # pages) k offset =
     (case http_get env k (mk_request etl (members_endpoint env list_id)
                             (Some (members_params 1000 offset status))) of
        None \<Rightarrow> False
      | Some resp \<Rightarrow>
          status_code resp = 200 \<and>
          (case json_body resp of
             None \<Rightarrow> False
           | Some j \<Rightarrow> py_get j ''members'' (JArr []) = Inr (JArr page)) \<and>
          page \<noteq> [] \<and>
          serves_pages env etl list_id status pages (Suc k) (offset + 1000))"

text \<open>A mailing list as the server sends it, the row \<^verbatim>\<open>extract_lists\<close> builds from
  it, and a server with four lists, no sent campaign and no subscribed member.\<close>

definition list_json :: "string \<Rightarrow> json" where
  "list_json list_id =
     JObj [(''id'', JStr list_id), (''name'', JStr ''Main''),
           (''stats'', JObj [(''member_count'', JInt 10), (''unsubscribe_count'', JInt 1),
                             (''open_rate'', JReal (1 / 4)), (''click_rate'', JReal (1 / 10))]),
           (''date_created'', JNull)]"

definition list_row_example :: "string \<Rightarrow> row" where
  "list_row_example list_id =
     [(''list_id'', JStr list_id), (''list_name'', JStr ''Main''), (''member_count'', JInt 10),
      (''unsubscribe_count'', JInt 1), (''open_rate'', JReal (1 / 4)),
      (''click_rate'', JReal (1 / 10)), (''date_created'', JNull),
      (''visibility'', JStr ''private'')]"

definition four_lists_server :: env where
  "four_lists_server =
     quiet_env\<lparr>http_get := (\<lambda>k req.
       if url req = base_url demo_etl @ ''/lists'' then
         Some \<lparr>status_code = 200,
               json_body = Some (JObj [(''lists'',
                 JArr [list_json ''l1'', list_json ''l2'', list_json ''l3'', list_json ''l4''])])\<rparr>
       else if url req = base_url demo_etl @ ''/campaigns'' then
         Some \<lparr>status_code = 200, json_body = Some (JObj [(''campaigns'', JArr [])])\<rparr>
       else Some \<lparr>status_code = 200, json_body = Some (JObj [(''members'', JArr [])])\<rparr>)\<rparr>"

text \<open>Two analytics reports: one with both the \<open>sessions\<close> and the
  \<open>userEngagementDuration\<close> metric (7 sessions lasting 21 seconds in all, and a row of
  zeros), one with the \<open>sessions\<close> metric alone.\<close>

definition ga_example :: ga_response where
  "ga_example =
     \<lparr>dimension_headers = [''country''],
      metric_headers = [''sessions'', ''userEngagementDuration''],
      report_rows = [\<lparr>dimension_values = [''Ukraine''], metric_values = [''7'', ''21.0'']\<rparr>,
                     \<lparr>dimension_values = [''France''], metric_values = [''0'', ''0.0'']\<rparr>]\<rparr>"

definition ga_sessions_only :: ga_response where
  "ga_sessions_only =
     \<lparr>dimension_headers = [''country''],
      metric_headers = [''sessions''],
      report_rows = [\<lparr>dimension_values = [''Ukraine''], metric_values = [''7'']\<rparr>]\<rparr>"

section \<open>Basic facts about results and tables\<close>

lemma bind_result_Inr_iff:
  "bind_result r f = Inr y \<longleftrightarrow> (\<exists>x. r = Inr x \<and> f x = Inr y)"
  by (cases r) (simp_all add: bind_result_def)

lemma bind_result_Inr [simp]: "bind_result (Inr x) f = f x"
  by (simp add: bind_result_def)

lemma bind_result_Inl [simp]: "bind_result (Inl e) f = Inl e"
  by (simp add: bind_result_def)

lemma get_col_set_col:
  "get_col (set_col df c v) c' = (if c' = c then Inr v else get_col df c')"
  by (simp add: get_col_def set_col_def update_conv')

lemma nrows_set_col [simp]: "nrows (set_col df c v) = nrows df"
  by (simp add: set_col_def)

lemma has_col_iff: "has_col df c \<longleftrightarrow> map_of (cols df) c \<noteq> None"
  by (simp add: has_col_def map_of_eq_None_iff)

lemma has_col_set_col: "has_col (set_col df c v) c' \<longleftrightarrow> c' = c \<or> has_col df c'"
  by (simp add: has_col_iff set_col_def update_conv')

lemma has_col_get_col: "has_col df c \<longleftrightarrow> (\<exists>v. get_col df c = Inr v)"
  by (auto simp: has_col_iff get_col_def split: option.splits)

lemma nrows_parse_datetime_col:
  "parse_datetime_col env df c = Inr df' \<Longrightarrow> nrows df' = nrows df"
  by (auto simp: parse_datetime_col_def bind_result_Inr_iff)

lemma nrows_DataFrame [simp]: "nrows (DataFrame raw_data) = length raw_data"
  by (simp add: DataFrame_def frame_of_def)

lemma df_empty_no_cols: "df_empty (DataFrame raw_data) \<Longrightarrow> cols (DataFrame raw_data) = []"
  by (auto simp: df_empty_def DataFrame_def frame_of_def df_columns_def)

lemma bind_result_InrE:
  assumes "bind_result r f = Inr y"
  obtains x where "r = Inr x" and "f x = Inr y"
  using assms by (cases r) (simp_all add: bind_result_def)

lemma nrows_transform_lists:
  "transform_lists env df = Inr df' \<Longrightarrow> nrows df' = nrows df"
  unfolding transform_lists_def
  by (elim bind_result_InrE) (auto split: if_splits dest!: nrows_parse_datetime_col)

lemma nrows_transform_campaigns:
  "transform_campaigns env df = Inr df' \<Longrightarrow> nrows df' = nrows df"
  unfolding transform_campaigns_def Let_def
  by (elim bind_result_InrE) (auto split: if_splits elim!: bind_result_InrE dest!: nrows_parse_datetime_col)

lemma transform_members_steps:
  assumes "transform_members env df w = (Inr df', w')"
  shows "nrows df' = nrows df \<and> clock_reads w \<le> clock_reads w'"
proof -
  from assms obtain df1 where
    pre: "bind_result
             (if has_col df ''timestamp_signup''
              then parse_datetime_col env df ''timestamp_signup'' else Inr df) (\<lambda>df.
           bind_result
             (if has_col df ''timestamp_opt''
              then parse_datetime_col env df ''timestamp_opt'' else Inr df) (\<lambda>df.
           if has_col df ''country_code'' then
             bind_result (get_col df ''country_code'') (\<lambda>code.
             let df = set_col df ''country_name'' (map (map_cell country_mapping) code)
             in bind_result (get_col df ''country_name'') (\<lambda>name.
                bind_result (get_col df ''country_code'') (\<lambda>code.
                Inr (set_col df ''country_name'' (fillna_col name code)))))
           else Inr df)) = Inr df1"
    and post: "(if has_col df1 ''timestamp_signup'' then
            (case now env w of (t, w1) \<Rightarrow>
               (bind_result (get_col df1 ''timestamp_signup'') (\<lambda>signup.
                bind_result (days_between env t signup) (\<lambda>days.
                Inr (set_col df1 ''days_since_signup'' days))), w1))
          else (Inr df1, w)) = (Inr df', w')"
    unfolding transform_members_def by (auto split: sum.splits)
  have 1: "nrows df1 = nrows df"
    using pre unfolding Let_def
    by (elim bind_result_InrE) (auto split: if_splits elim!: bind_result_InrE dest!: nrows_parse_datetime_col)
  have 2: "nrows df' = nrows df1 \<and> clock_reads w \<le> clock_reads w'"
    using post by (auto simp: now_def split: if_splits elim!: bind_result_InrE)
  show ?thesis using 1 2 by simp
qed

lemma get_col_DataFrame:
  "get_col (DataFrame raw_data) c = Inr v \<Longrightarrow> length v = length raw_data"
  by (auto simp: get_col_def DataFrame_def frame_of_def map_of_map_restrict restrict_map_def
      split: option.splits if_splits)

lemma parse_datetime_col_other:
  "parse_datetime_col env df c = Inr df' \<Longrightarrow> c' \<noteq> c \<Longrightarrow> get_col df' c' = get_col df c'"
  unfolding parse_datetime_col_def
  by (elim bind_result_InrE) (auto simp: get_col_set_col)



lemma transform_data_cases:
  assumes "transform_data env data_type raw_data w = (Inr df, w')"
  shows "(df_empty (DataFrame raw_data) \<and> df = DataFrame raw_data \<and> w' = w)
       \<or> (\<not> df_empty (DataFrame raw_data) \<and>
           (\<exists>df1 w1.
              (if data_type = ''campaigns'' then (transform_campaigns env (DataFrame raw_data), w)
               else if data_type = ''members'' then transform_members env (DataFrame raw_data) w
               else if data_type = ''lists'' then (transform_lists env (DataFrame raw_data), w)
               else (Inr (DataFrame raw_data), w)) = (Inr df1, w1)
            \<and> df = set_scalar (set_scalar df1 ''extracted_at'' (Time (wall_clock env (clock_reads w1))))
                     ''data_source'' (Str ''mailchimp'')
            \<and> w' = w1\<lparr>clock_reads := Suc (clock_reads w1)\<rparr>))"
  using assms unfolding transform_data_def Let_def
  by (auto simp: now_def split: prod.splits sum.splits if_splits)

lemma no_col_of_empty_frame:
  "df_empty (DataFrame raw_data) \<Longrightarrow> get_col (DataFrame raw_data) c = Inl (KeyError c)"
  by (simp add: get_col_def df_empty_no_cols)







lemma col_op_length: "col_op f a b = Inr c \<Longrightarrow> length c = min (length a) (length b)"
  by (auto simp: col_op_def split: if_splits)

lemma col_op_nth:
  "col_op f a b = Inr c \<Longrightarrow> i < length a \<Longrightarrow> i < length b \<Longrightarrow> c ! i = f (a ! i) (b ! i)"
  by (auto simp: col_op_def split: if_splits)

lemma numeric_inf_of_sign [simp]: "numeric (inf_of_sign x)"
  by (simp add: inf_of_sign_def)

lemma optional_parse_other:
  assumes "(if has_col df c then parse_datetime_col env df c else Inr df) = Inr df'"
    and "c' \<noteq> c"
  shows "get_col df' c' = get_col df c'"
  using assms by (auto split: if_splits dest: parse_datetime_col_other)

lemma transform_members_stages:
  assumes "transform_members env df w = (Inr df', w')"
  obtains dfa dfb df1 where
    "(if has_col df ''timestamp_signup''
      then parse_datetime_col env df ''timestamp_signup'' else Inr df) = Inr dfa"
    and "(if has_col dfa ''timestamp_opt''
          then parse_datetime_col env dfa ''timestamp_opt'' else Inr dfa) = Inr dfb"
    and "(if has_col dfb ''country_code'' then
             bind_result (get_col dfb ''country_code'') (\<lambda>code.
             let df = set_col dfb ''country_name'' (map (map_cell country_mapping) code)
             in bind_result (get_col df ''country_name'') (\<lambda>name.
                bind_result (get_col df ''country_code'') (\<lambda>code.
                Inr (set_col df ''country_name'' (fillna_col name code)))))
           else Inr dfb) = Inr df1"
    and "(if has_col df1 ''timestamp_signup'' then
            (case now env w of (t, w1) \<Rightarrow>
               (bind_result (get_col df1 ''timestamp_signup'') (\<lambda>signup.
                bind_result (days_between env t signup) (\<lambda>days.
                Inr (set_col df1 ''days_since_signup'' days))), w1))
          else (Inr df1, w)) = (Inr df', w')"
proof -
  from assms obtain df1 where
    pre: "bind_result
             (if has_col df ''timestamp_signup''
              then parse_datetime_col env df ''timestamp_signup'' else Inr df) (\<lambda>df.
           bind_result
             (if has_col df ''timestamp_opt''
              then parse_datetime_col env df ''timestamp_opt'' else Inr df) (\<lambda>df.
           if has_col df ''country_code'' then
             bind_result (get_col df ''country_code'') (\<lambda>code.
             let df = set_col df ''country_name'' (map (map_cell country_mapping) code)
             in bind_result (get_col df ''country_name'') (\<lambda>name.
                bind_result (get_col df ''country_code'') (\<lambda>code.
                Inr (set_col df ''country_name'' (fillna_col name code)))))
           else Inr df)) = Inr df1"
    and post: "(if has_col df1 ''timestamp_signup'' then
            (case now env w of (t, w1) \<Rightarrow>
               (bind_result (get_col df1 ''timestamp_signup'') (\<lambda>signup.
                bind_result (days_between env t signup) (\<lambda>days.
                Inr (set_col df1 ''days_since_signup'' days))), w1))
          else (Inr df1, w)) = (Inr df', w')"
    unfolding transform_members_def by (auto split: sum.splits)
  from pre obtain dfa where
    a: "(if has_col df ''timestamp_signup''
         then parse_datetime_col env df ''timestamp_signup'' else Inr df) = Inr dfa"
    and rest: "bind_result
             (if has_col dfa ''timestamp_opt''
              then parse_datetime_col env dfa ''timestamp_opt'' else Inr dfa) (\<lambda>df.
           if has_col df ''country_code'' then
             bind_result (get_col df ''country_code'') (\<lambda>code.
             let df = set_col df ''country_name'' (map (map_cell country_mapping) code)
             in bind_result (get_col df ''country_name'') (\<lambda>name.
                bind_result (get_col df ''country_code'') (\<lambda>code.
                Inr (set_col df ''country_name'' (fillna_col name code)))))
           else Inr df) = Inr df1"
    by (rule bind_result_InrE)
  from rest obtain dfb where
    b: "(if has_col dfa ''timestamp_opt''
         then parse_datetime_col env dfa ''timestamp_opt'' else Inr dfa) = Inr dfb"
    and c: "(if has_col dfb ''country_code'' then
             bind_result (get_col dfb ''country_code'') (\<lambda>code.
             let df = set_col dfb ''country_name'' (map (map_cell country_mapping) code)
             in bind_result (get_col df ''country_name'') (\<lambda>name.
                bind_result (get_col df ''country_code'') (\<lambda>code.
                Inr (set_col df ''country_name'' (fillna_col name code)))))
           else Inr dfb) = Inr df1"
    by (rule bind_result_InrE)
  from a b c post show thesis by (rule that)
qed

lemma members_tenure_other:
  assumes "(if has_col df1 ''timestamp_signup'' then
            (case now env w of (t, w1) \<Rightarrow>
               (bind_result (get_col df1 ''timestamp_signup'') (\<lambda>signup.
                bind_result (days_between env t signup) (\<lambda>days.
                Inr (set_col df1 ''days_since_signup'' days))), w1))
          else (Inr df1, w)) = (Inr df', w')"
    and "c \<noteq> ''days_since_signup''"
  shows "get_col df' c = get_col df1 c"
  using assms
  by (auto simp: now_def get_col_set_col split: if_splits elim!: bind_result_InrE)

lemma transform_members_country:
  assumes "transform_members env df w = (Inr df', w')"
  shows "(has_col df ''country_code'' \<longrightarrow>
           (\<exists>code. get_col df ''country_code'' = Inr code
             \<and> get_col df' ''country_code'' = Inr code
             \<and> get_col df' ''country_name''
                 = Inr (fillna_col (map (map_cell country_mapping) code) code)))
       \<and> (\<not> has_col df ''country_code'' \<longrightarrow> \<not> has_col df' ''country_code'')"
proof -
  from assms obtain dfa dfb df1 where
    a: "(if has_col df ''timestamp_signup''
      then parse_datetime_col env df ''timestamp_signup'' else Inr df) = Inr dfa"
    and b: "(if has_col dfa ''timestamp_opt''
          then parse_datetime_col env dfa ''timestamp_opt'' else Inr dfa) = Inr dfb"
    and c: "(if has_col dfb ''country_code'' then
             bind_result (get_col dfb ''country_code'') (\<lambda>code.
             let df = set_col dfb ''country_name'' (map (map_cell country_mapping) code)
             in bind_result (get_col df ''country_name'') (\<lambda>name.
                bind_result (get_col df ''country_code'') (\<lambda>code.
                Inr (set_col df ''country_name'' (fillna_col name code)))))
           else Inr dfb) = Inr df1"
    and post: "(if has_col df1 ''timestamp_signup'' then
            (case now env w of (t, w1) \<Rightarrow>
               (bind_result (get_col df1 ''timestamp_signup'') (\<lambda>signup.
                bind_result (days_between env t signup) (\<lambda>days.
                Inr (set_col df1 ''days_since_signup'' days))), w1))
          else (Inr df1, w)) = (Inr df', w')"
    by (rule transform_members_stages)
  have same: "get_col dfb ''country_code'' = get_col df ''country_code''"
    using optional_parse_other [OF a, of "''country_code''"]
      optional_parse_other [OF b, of "''country_code''"] by simp
  have last: "get_col df' ''country_code'' = get_col df1 ''country_code''"
    "get_col df' ''country_name'' = get_col df1 ''country_name''"
    using members_tenure_other [OF post] by simp_all
  show ?thesis
  proof (cases "has_col df ''country_code''")
    case True
    then obtain code where code: "get_col df ''country_code'' = Inr code"
      by (auto simp: has_col_get_col)
    have hb: "has_col dfb ''country_code''"
      using same code by (auto simp: has_col_get_col)
    have df1: "df1 = set_col (set_col dfb ''country_name'' (map (map_cell country_mapping) code))
                 ''country_name'' (fillna_col (map (map_cell country_mapping) code) code)"
      using c hb same code by (simp add: Let_def get_col_set_col)
    have "get_col df1 ''country_code'' = Inr code"
      and "get_col df1 ''country_name''
               = Inr (fillna_col (map (map_cell country_mapping) code) code)"
      using same code by (simp_all add: df1 get_col_set_col)
    with last code True show ?thesis by simp
  next
    case False
    then have nb: "\<not> has_col dfb ''country_code''" using same by (simp add: has_col_get_col)
    with c have "df1 = dfb" by simp
    with nb last have "\<not> has_col df' ''country_code''" by (simp add: has_col_get_col)
    with False show ?thesis by simp
  qed
qed


lemma map_of_country_mapping:
  "map_of country_mapping s =
     (if s = ''UA'' then Some ''Ukraine'' else if s = ''RU'' then Some ''Russia''
      else if s = ''US'' then Some ''United States'' else if s = ''GB'' then Some ''United Kingdom''
      else if s = ''DE'' then Some ''Germany'' else if s = ''FR'' then Some ''France'' else None)"
  by (simp add: country_mapping_def)

lemma country_name_cell:
  fixes c :: cell
  defines "r \<equiv> (if map_cell country_mapping c = NA then c else map_cell country_mapping c)"
  shows "(c = Str ''UA'' \<longrightarrow> r = Str ''Ukraine'')
         \<and> (c = Str ''RU'' \<longrightarrow> r = Str ''Russia'')
         \<and> (c = Str ''US'' \<longrightarrow> r = Str ''United States'')
         \<and> (c = Str ''GB'' \<longrightarrow> r = Str ''United Kingdom'')
         \<and> (c = Str ''DE'' \<longrightarrow> r = Str ''Germany'')
         \<and> (c = Str ''FR'' \<longrightarrow> r = Str ''France'')
         \<and> (c \<notin> Str ` {''UA'', ''RU'', ''US'', ''GB'', ''DE'', ''FR''} \<longrightarrow> r = c)"
proof (cases c)
  case (Str s)
  then show ?thesis
    unfolding r_def by (simp add: map_of_country_mapping)
qed (simp_all add: r_def)

lemma transform_data_members_cols:
  assumes "transform_data env ''members'' raw_data w = (Inr df, w')"
    and "has_col df c"
  shows "\<exists>df1 w1. transform_members env (DataFrame raw_data) w = (Inr df1, w1)
           \<and> (\<forall>c'. c' \<noteq> ''extracted_at'' \<longrightarrow> c' \<noteq> ''data_source'' \<longrightarrow>
                  get_col df c' = get_col df1 c')"
proof -
  from transform_data_cases [OF assms(1)] show ?thesis
  proof (elim disjE conjE exE)
    assume "df_empty (DataFrame raw_data)" and "df = DataFrame raw_data"
    with assms(2) show ?thesis
      by (simp add: has_col_get_col no_col_of_empty_frame)
  next
    fix df1 w1
    assume "(if ''members'' = ''campaigns'' then (transform_campaigns env (DataFrame raw_data), w)
               else if ''members'' = ''members'' then transform_members env (DataFrame raw_data) w
               else if ''members'' = ''lists'' then (transform_lists env (DataFrame raw_data), w)
               else (Inr (DataFrame raw_data), w)) = (Inr df1, w1)"
      and "df = set_scalar (set_scalar df1 ''extracted_at'' (Time (wall_clock env (clock_reads w1))))
                     ''data_source'' (Str ''mailchimp'')"
    then show ?thesis by (simp add: set_scalar_def get_col_set_col)
  qed
qed

lemma fillna_col_nth:
  "i < length a \<Longrightarrow> i < length b \<Longrightarrow>
     fillna_col a b ! i = (if a ! i = NA then b ! i else a ! i)"
  by (simp add: fillna_col_def)

lemma map_result_length: "map_result f xs = Inr ys \<Longrightarrow> length ys = length xs"
  by (induction xs arbitrary: ys) (auto split: sum.splits)

lemma map_result_set:
  "map_result f xs = Inr ys \<Longrightarrow> y \<in> set ys \<Longrightarrow> \<exists>x \<in> set xs. f x = Inr y"
  by (induction xs arbitrary: ys) (auto split: sum.splits)

lemma get_col_frame_of:
  "get_col (frame_of records) c = Inr v \<Longrightarrow> length v = length records"
  by (auto simp: get_col_def frame_of_def map_of_map_restrict restrict_map_def
      split: option.splits if_splits)

lemma has_col_frame_of:
  "has_col (frame_of records) c \<longleftrightarrow> (\<exists>r \<in> set records. c \<in> fst ` set r)"
  by (auto simp: has_col_def frame_of_def df_columns_def comp_def)

lemma keys_update: "fst ` set (AList.update k v al) = insert k (fst ` set al)"
  using dom_update [of k v al] by (simp add: dom_map_of_conv_image_fst)

lemma add_dimensions_keys:
  "add_dimensions names vs rd = Inr rd' \<Longrightarrow> fst ` set rd' \<subseteq> fst ` set rd \<union> set names"
  by (induction names vs rd rule: add_dimensions.induct) (auto simp: keys_update)

lemma add_metrics_keys:
  "add_metrics env names vs rd = Inr rd' \<Longrightarrow> fst ` set rd' \<subseteq> fst ` set rd \<union> set names"
  by (induction env names vs rd rule: add_metrics.induct)
     (auto simp: keys_update split: sum.splits)

lemma ga_row_data_keys:
  assumes "ga_row_data env resp r = Inr rd"
  shows "fst ` set rd \<subseteq> set (dimension_headers resp) \<union> set (metric_headers resp)"
proof -
  from assms obtain rd0 where
    d: "add_dimensions (dimension_headers resp) (dimension_values r) [] = Inr rd0"
    and m: "add_metrics env (metric_headers resp) (metric_values r) rd0 = Inr rd"
    unfolding ga_row_data_def by (rule bind_result_InrE)
  from add_dimensions_keys [OF d] add_metrics_keys [OF m] show ?thesis by simp blast
qed


lemma cell_div_NA_right [simp]: "cell_div x NA = NA"
  by (cases x) simp_all

lemma fillna_nth: "i < length a \<Longrightarrow> fillna a v ! i = (if a ! i = NA then v else a ! i)"
  by (simp add: fillna_def)

lemma fillna_length [simp]: "length (fillna a v) = length a"
  by (simp add: fillna_def)

text \<open>The stages of \<open>ga_transform_data\<close>: the rows, the table built from them, the
  \<open>date\<close> and \<open>country\<close> clean-up, and the derived column.\<close>

lemma ga_transform_data_stages:
  assumes "ga_transform_data env resp w = (Inr df, w')"
  obtains data dfa dfb dfc where
    "map_result (ga_row_data env resp) (report_rows resp) = Inr data"
    and "(if has_col (frame_of data) ''date'' then
                bind_result (get_col (frame_of data) ''date'') (\<lambda>d.
                bind_result (to_datetime env d) (\<lambda>parsed.
                Inr (set_col (frame_of data) ''date'' parsed)))
              else Inr (frame_of data)) = Inr dfa"
    and "(if has_col dfa ''country'' then
                bind_result (get_col dfa ''country'') (\<lambda>c.
                Inr (set_col dfa ''country'' (map (clean_country env) c)))
              else Inr dfa) = Inr dfb"
    and "(if has_col dfb ''userEngagementDuration'' \<and> has_col dfb ''sessions'' then
             bind_result (get_col dfb ''userEngagementDuration'') (\<lambda>duration.
             bind_result (get_col dfb ''sessions'') (\<lambda>sessions.
             bind_result (col_op cell_div duration sessions) (\<lambda>avg.
             let df = set_col dfb ''avg_engagement_duration'' avg
             in Inr (set_col df ''avg_engagement_duration'' (fillna avg (Num 0))))))
           else Inr dfb) = Inr dfc"
    and "df = set_scalar dfc ''extracted_at'' (Time (wall_clock env (clock_reads w)))"
proof -
  from assms obtain dfc where
    chain: "bind_result (map_result (ga_row_data env resp) (report_rows resp)) (\<lambda>data.
           let df = frame_of data in
           bind_result
             (if has_col df ''date'' then
                bind_result (get_col df ''date'') (\<lambda>d.
                bind_result (to_datetime env d) (\<lambda>parsed. Inr (set_col df ''date'' parsed)))
              else Inr df) (\<lambda>df.
           bind_result
             (if has_col df ''country'' then
                bind_result (get_col df ''country'') (\<lambda>c.
                Inr (set_col df ''country'' (map (clean_country env) c)))
              else Inr df) (\<lambda>df.
           if has_col df ''userEngagementDuration'' \<and> has_col df ''sessions'' then
             bind_result (get_col df ''userEngagementDuration'') (\<lambda>duration.
             bind_result (get_col df ''sessions'') (\<lambda>sessions.
             bind_result (col_op cell_div duration sessions) (\<lambda>avg.
             let df = set_col df ''avg_engagement_duration'' avg
             in Inr (set_col df ''avg_engagement_duration'' (fillna avg (Num 0))))))
           else Inr df))) = Inr dfc"
    and df: "df = set_scalar dfc ''extracted_at'' (Time (wall_clock env (clock_reads w)))"
    unfolding ga_transform_data_def by (auto simp: now_def split: sum.splits)
  from chain obtain data where
    1: "map_result (ga_row_data env resp) (report_rows resp) = Inr data"
    and r1: "bind_result
             (if has_col (frame_of data) ''date'' then
                bind_result (get_col (frame_of data) ''date'') (\<lambda>d.
                bind_result (to_datetime env d) (\<lambda>parsed.
                Inr (set_col (frame_of data) ''date'' parsed)))
              else Inr (frame_of data)) (\<lambda>df.
           bind_result
             (if has_col df ''country'' then
                bind_result (get_col df ''country'') (\<lambda>c.
                Inr (set_col df ''country'' (map (clean_country env) c)))
              else Inr df) (\<lambda>df.
           if has_col df ''userEngagementDuration'' \<and> has_col df ''sessions'' then
             bind_result (get_col df ''userEngagementDuration'') (\<lambda>duration.
             bind_result (get_col df ''sessions'') (\<lambda>sessions.
             bind_result (col_op cell_div duration sessions) (\<lambda>avg.
             let df = set_col df ''avg_engagement_duration'' avg
             in Inr (set_col df ''avg_engagement_duration'' (fillna avg (Num 0))))))
           else Inr df)) = Inr dfc"
    unfolding Let_def by (rule bind_result_InrE)
  from r1 obtain dfa where
    2: "(if has_col (frame_of data) ''date'' then
                bind_result (get_col (frame_of data) ''date'') (\<lambda>d.
                bind_result (to_datetime env d) (\<lambda>parsed.
                Inr (set_col (frame_of data) ''date'' parsed)))
              else Inr (frame_of data)) = Inr dfa"
    and r2: "bind_result
             (if has_col dfa ''country'' then
                bind_result (get_col dfa ''country'') (\<lambda>c.
                Inr (set_col dfa ''country'' (map (clean_country env) c)))
              else Inr dfa) (\<lambda>df.
           if has_col df ''userEngagementDuration'' \<and> has_col df ''sessions'' then
             bind_result (get_col df ''userEngagementDuration'') (\<lambda>duration.
             bind_result (get_col df ''sessions'') (\<lambda>sessions.
             bind_result (col_op cell_div duration sessions) (\<lambda>avg.
             let df = set_col df ''avg_engagement_duration'' avg
             in Inr (set_col df ''avg_engagement_duration'' (fillna avg (Num 0))))))
           else Inr df) = Inr dfc"
    by (rule bind_result_InrE)
  from r2 obtain dfb where
    3: "(if has_col dfa ''country'' then
                bind_result (get_col dfa ''country'') (\<lambda>c.
                Inr (set_col dfa ''country'' (map (clean_country env) c)))
              else Inr dfa) = Inr dfb"
    and 4: "(if has_col dfb ''userEngagementDuration'' \<and> has_col dfb ''sessions'' then
             bind_result (get_col dfb ''userEngagementDuration'') (\<lambda>duration.
             bind_result (get_col dfb ''sessions'') (\<lambda>sessions.
             bind_result (col_op cell_div duration sessions) (\<lambda>avg.
             let df = set_col dfb ''avg_engagement_duration'' avg
             in Inr (set_col df ''avg_engagement_duration'' (fillna avg (Num 0))))))
           else Inr dfb) = Inr dfc"
    by (rule bind_result_InrE)
  from 1 2 3 4 df show thesis by (rule that)
qed

lemma ga_date_step:
  assumes "(if has_col df ''date'' then
                bind_result (get_col df ''date'') (\<lambda>d.
                bind_result (to_datetime env d) (\<lambda>parsed.
                Inr (set_col df ''date'' parsed)))
              else Inr df) = Inr dfa"
  shows "(c \<noteq> ''date'' \<longrightarrow> get_col dfa c = get_col df c) \<and> has_col dfa c = has_col df c"
  using assms
  by (auto simp: get_col_set_col has_col_set_col split: if_splits elim!: bind_result_InrE)

lemma ga_country_step:
  assumes "(if has_col dfa ''country'' then
                bind_result (get_col dfa ''country'') (\<lambda>c.
                Inr (set_col dfa ''country'' (map (clean_country env) c)))
              else Inr dfa) = Inr dfb"
  shows "(c \<noteq> ''country'' \<longrightarrow> get_col dfb c = get_col dfa c) \<and> has_col dfb c = has_col dfa c"
  using assms
  by (auto simp: get_col_set_col has_col_set_col split: if_splits elim!: bind_result_InrE)

text \<open>\<open>raise_for_status\<close> has already raised on status 429 when the test for 429 is
  reached, so the retry is never taken and a call makes exactly one request.\<close>

lemma make_request_once:
  "make_request env etl endpoint ps w =
     (let req = mk_request etl endpoint ps;
          w1 = w\<lparr>trace := trace w @ [Get req]\<rparr>
      in case http_get env (n_requests w) req of
           None \<Rightarrow> (Inl ConnectionError, w1)
         | Some resp \<Rightarrow>
             (case raise_for_status resp of
                Inl e \<Rightarrow> (Inl e, w1)
              | Inr u \<Rightarrow>
                  (case json_body resp of
                     None \<Rightarrow> (Inl JSONDecodeError, w1)
                   | Some j \<Rightarrow> (Inr j, w1))))"
  by (subst make_request.simps)
     (auto simp: Let_def raise_for_status_def split: option.splits sum.splits)

declare make_request.simps [simp del]

lemma n_requests_Get [simp]:
  "n_requests (w\<lparr>trace := trace w @ [Get req]\<rparr>) = Suc (n_requests w)"
  by (simp add: n_requests_def)

lemma n_requests_sleep [simp]: "n_requests (sleep d w) = n_requests w"
  by (simp add: n_requests_def sleep_def)

lemma map_result_append_eq:
  "map_result f (xs @ ys) =
     (case map_result f xs of
        Inl e \<Rightarrow> Inl e
      | Inr a \<Rightarrow> (case map_result f ys of Inl e \<Rightarrow> Inl e | Inr b \<Rightarrow> Inr (a @ b)))"
  by (induction xs) (simp_all split: sum.splits)

lemma map_result_append:
  "map_result f (xs @ ys) = Inr zs \<longleftrightarrow>
     (\<exists>a b. map_result f xs = Inr a \<and> map_result f ys = Inr b \<and> zs = a @ b)"
  by (auto simp: map_result_append_eq split: sum.splits)

lemma map_result_replicate:
  "f x = Inr y \<Longrightarrow> map_result f (replicate n x) = Inr (replicate n y)"
  by (induction n) simp_all

lemma members_loop_pages:
  assumes "serves_pages env etl list_id status pages (n_requests w) offset"
    and "map_result (member_row list_id) (concat pages) = Inr new_rows"
  shows "\<exists>w'. members_loop env etl list_id status 1000 members_data offset w
               = Some (Inr (members_data @ new_rows), w')
             \<and> n_requests w' = n_requests w + length pages + 1"
  using assms
proof (induction pages arbitrary: w offset members_data new_rows)
  case Nil
  then show ?case
    by (subst members_loop.simps)
       (auto simp: make_request_once raise_for_status_def Let_def split: option.splits)
next
  case (Cons page pages)
  let ?req = "mk_request etl (members_endpoint env list_id) (Some (members_params 1000 offset status))"
  let ?w1 = "sleep (1 / 10) (w\<lparr>trace := trace w @ [Get ?req]\<rparr>)"
  from Cons.prems(1) obtain resp j where
    resp: "http_get env (n_requests w) ?req = Some resp" and ok: "status_code resp = 200"
    and body: "json_body resp = Some j"
    and page: "py_get j ''members'' (JArr []) = Inr (JArr page)" and ne: "page \<noteq> []"
    and rest: "serves_pages env etl list_id status pages (Suc (n_requests w)) (offset + 1000)"
    by (auto split: option.splits)
  from Cons.prems(2) obtain rows1 rows2 where
    r1: "map_result (member_row list_id) page = Inr rows1"
    and r2: "map_result (member_row list_id) (concat pages) = Inr rows2"
    and nr: "new_rows = rows1 @ rows2"
    by (auto simp: map_result_append)
  have step: "members_loop env etl list_id status 1000 members_data offset w
        = members_loop env etl list_id status 1000 (members_data @ rows1) (offset + 1000) ?w1"
    by (subst members_loop.simps)
       (simp add: make_request_once raise_for_status_def Let_def resp ok body page ne r1)
  have "serves_pages env etl list_id status pages (n_requests ?w1) (offset + 1000)"
    using rest by simp
  from Cons.IH [OF this r2, of "members_data @ rows1"] obtain w' where
    "members_loop env etl list_id status 1000 (members_data @ rows1) (offset + 1000) ?w1
       = Some (Inr ((members_data @ rows1) @ rows2), w')"
    and "n_requests w' = n_requests ?w1 + length pages + 1"
    by blast
  with step nr show ?case by simp
qed




lemma non_empty_tables_idem [simp]:
  "non_empty_tables (non_empty_tables tables) = non_empty_tables tables"
  by (simp add: non_empty_tables_def)







text \<open>The requests of a run: every operation only appends to the trace, and the
  URLs it requests are those of its endpoints.\<close>

lemma requested_urls_append [simp]:
  "requested_urls (xs @ ys) = requested_urls xs @ requested_urls ys"
  by (induction xs rule: requested_urls.induct) simp_all

lemma make_request_world:
  "make_request env etl endpoint ps w = (r, w') \<Longrightarrow>
     w' = w\<lparr>trace := trace w @ [Get (mk_request etl endpoint ps)]\<rparr>"
  by (auto simp: make_request_once Let_def split: option.splits sum.splits)

lemma make_request_trace:
  "make_request env etl endpoint ps w = (r, w') \<Longrightarrow>
     trace w' = trace w @ [Get (mk_request etl endpoint ps)]"
  by (drule make_request_world) simp

lemma url_mk_request [simp]: "url (mk_request etl endpoint ps) = base_url etl @ ''/'' @ endpoint"
  by (simp add: mk_request_def)

lemma trace_sleep [simp]: "trace (sleep d w) = trace w @ [Sleep d]"
  by (simp add: sleep_def)

lemma extract_lists_trace:
  "extract_lists env etl w = (r, w') \<Longrightarrow>
     \<exists>evs. trace w' = trace w @ evs \<and> requested_urls evs = [base_url etl @ ''/lists'']"
  by (auto simp: extract_lists_def split: prod.splits sum.splits dest!: make_request_trace)

lemma campaigns_loop_trace:
  "campaigns_loop env etl cs acc w = (r, w') \<Longrightarrow>
     \<exists>evs. trace w' = trace w @ evs
          \<and> set (requested_urls evs) \<subseteq> {u. \<exists>c. u = base_url etl @ ''/campaigns'' @ c}"
proof (induction cs arbitrary: acc w)
  case Nil
  then show ?case by simp
next
  case (Cons campaign rest)
  show ?case
  proof (cases "py_index campaign ''id''")
    case (Inl e)
    with Cons.prems show ?thesis by simp
  next
    case (Inr campaign_id)
    obtain r1 w1 where m: "make_request env etl (''campaigns/'' @ py_str env campaign_id) None w
                            = (r1, w1)"
      by (cases "make_request env etl (''campaigns/'' @ py_str env campaign_id) None w")
    have t1: "trace w1 = trace w @ [Get (mk_request etl (''campaigns/'' @ py_str env campaign_id) None)]"
      using m by (rule make_request_trace)
    show ?thesis
    proof (cases r1)
      case (Inl e)
      with Cons.prems Inr m t1 show ?thesis by auto
    next
      case stats: (Inr stats)
      show ?thesis
      proof (cases "campaign_row campaign campaign_id stats")
        case (Inl e)
        with Cons.prems Inr m stats t1 show ?thesis by auto
      next
        case row: (Inr row)
        with Cons.prems Inr m stats
        have "campaigns_loop env etl rest (acc @ [row]) (sleep (1 / 10) w1) = (r, w')" by simp
        from Cons.IH [OF this] obtain evs where
          "trace w' = trace (sleep (1 / 10) w1) @ evs"
          "set (requested_urls evs) \<subseteq> {u. \<exists>c. u = base_url etl @ ''/campaigns'' @ c}"
          by blast
        with t1 show ?thesis by auto
      qed
    qed
  qed
qed

lemma extract_campaigns_trace:
  assumes "extract_campaigns env etl since_date w = (r, w')"
  shows "\<exists>evs. trace w' = trace w @ evs
          \<and> set (requested_urls evs) \<subseteq> {u. \<exists>c. u = base_url etl @ ''/campaigns'' @ c}"
proof -
  define ps where "ps = (case since_date of
                  None \<Rightarrow> [(''count'', JInt 1000), (''status'', JStr ''sent'')]
                | Some d \<Rightarrow> if d \<noteq> [] then [(''count'', JInt 1000), (''status'', JStr ''sent'')]
                                  @ [(''since_send_time'', JStr d)]
                            else [(''count'', JInt 1000), (''status'', JStr ''sent'')])"
  obtain r1 w1 where m: "make_request env etl ''campaigns'' (Some ps) w = (r1, w1)"
    by (cases "make_request env etl ''campaigns'' (Some ps) w")
  have t1: "trace w1 = trace w @ [Get (mk_request etl ''campaigns'' (Some ps))]"
    using m by (rule make_request_trace)
  have unfold: "extract_campaigns env etl since_date w =
      (case (r1, w1) of
           (Inl e, w1) \<Rightarrow> (Inl e, w1)
         | (Inr response, w1) \<Rightarrow>
             (case bind_result (py_get response ''campaigns'' (JArr [])) py_iter of
                Inl e \<Rightarrow> (Inl e, w1)
              | Inr cs \<Rightarrow> campaigns_loop env etl cs [] w1))"
    unfolding extract_campaigns_def Let_def ps_def [symmetric] m ..
  show ?thesis
  proof (cases r1)
    case (Inl e)
    with assms unfold t1 show ?thesis by auto
  next
    case resp: (Inr response)
    show ?thesis
    proof (cases "bind_result (py_get response ''campaigns'' (JArr [])) py_iter")
      case (Inl e)
      with assms unfold resp t1 show ?thesis by auto
    next
      case (Inr cs)
      with assms unfold resp have "campaigns_loop env etl cs [] w1 = (r, w')" by simp
      from campaigns_loop_trace [OF this] obtain evs where
        "trace w' = trace w1 @ evs"
        "set (requested_urls evs) \<subseteq> {u. \<exists>c. u = base_url etl @ ''/campaigns'' @ c}"
        by blast
      with t1 show ?thesis by auto
    qed
  qed
qed

lemma transform_data_trace:
  "transform_data env data_type raw_data w = (r, w') \<Longrightarrow> trace w' = trace w"
  by (auto simp: transform_data_def transform_members_def Let_def now_def
      split: if_splits sum.splits prod.splits)

lemma trace_makedirs [simp]: "trace (makedirs d w) = trace w"
  by (simp add: makedirs_def)

lemma trace_write_file [simp]: "trace (write_file name content w) = trace w"
  by (simp add: write_file_def)

lemma trace_fold_write_file:
  "trace (fold (\<lambda>(data_type, df). write_file (f data_type) (g df)) xs w) = trace w"
  by (induction xs arbitrary: w) (auto)

lemma load_data_trace:
  "load_data env tables output_format output_path w = (r, w') \<Longrightarrow> trace w' = trace w"
  by (auto simp: load_data_def Let_def now_def trace_fold_write_file
      split: if_splits sum.splits prod.splits)

lemma members_loop_trace:
  assumes "members_loop env etl list_id status count members_data offset w = Some y"
  shows "\<exists>evs. trace (snd y) = trace w @ evs
           \<and> set (requested_urls evs) \<subseteq> {members_url env etl list_id}"
proof (rule members_loop.raw_induct
    [where P = "\<lambda>env etl list_id status count members_data offset w y.
                  \<exists>evs. trace (snd y) = trace w @ evs
                       \<and> set (requested_urls evs) \<subseteq> {members_url env etl list_id}",
     OF _ assms], goal_cases)
  case (1 members_loop env etl list_id status count members_data offset w y)
  let ?ep = "members_endpoint env list_id"
  let ?ps = "Some (members_params count offset status)"
  obtain r1 w1 where m: "make_request env etl ?ep ?ps w = (r1, w1)"
    by (cases "make_request env etl ?ep ?ps w")
  have t1: "trace w1 = trace w @ [Get (mk_request etl ?ep ?ps)]"
    using m by (rule make_request_trace)
  have base: "\<exists>evs. trace w1 = trace w @ evs
           \<and> set (requested_urls evs) \<subseteq> {members_url env etl list_id}"
    using t1 by (simp add: members_url_def)
  show ?case
  proof (cases r1)
    case (Inl e)
    with 1(2) m have "y = (Inl e, w1)" by simp
    with base show ?thesis by simp
  next
    case resp: (Inr response)
    show ?thesis
    proof (cases "py_get response ''members'' (JArr [])")
      case (Inl e)
      with 1(2) m resp have "y = (Inl e, w1)" by simp
      with base show ?thesis by simp
    next
      case mem: (Inr members)
      show ?thesis
      proof (cases "py_truthy members")
        case False
        with 1(2) m resp mem have "y = (Inr members_data, w1)" by simp
        with base show ?thesis by simp
      next
        case True
        show ?thesis
        proof (cases "bind_result (py_iter members) (map_result (member_row list_id))")
          case (Inl e)
          with 1(2) m resp mem True have "y = (Inl e, w1)" by simp
          with base show ?thesis by simp
        next
          case (Inr new_rows)
          with 1(2) m resp mem True
          have "members_loop env etl list_id status count (members_data @ new_rows)
                  (offset + count) (sleep (1 / 10) w1) = Some y" by simp
          from 1(1) [OF this] obtain evs where
            "trace (snd y) = trace (sleep (1 / 10) w1) @ evs"
            "set (requested_urls evs) \<subseteq> {members_url env etl list_id}"
            by blast
          with t1 show ?thesis by (simp add: members_url_def)
        qed
      qed
    qed
  qed
qed

lemma members_for_trace:
  "members_for env etl list_ids acc w = Some y \<Longrightarrow>
     \<exists>evs. trace (snd y) = trace w @ evs
          \<and> set (requested_urls evs) \<subseteq> members_url env etl ` set list_ids"
proof (induction list_ids arbitrary: acc w)
  case Nil
  then show ?case by auto
next
  case (Cons list_id rest)
  from Cons.prems obtain r1 w1 where
    e: "extract_members env etl list_id ''subscribed'' w = Some (r1, w1)"
    by (auto split: option.splits)
  from members_loop_trace [OF e [unfolded extract_members_def]] obtain evs1 where
    t1: "trace w1 = trace w @ evs1"
    and u1: "set (requested_urls evs1) \<subseteq> {members_url env etl list_id}"
    by auto
  show ?case
  proof (cases r1)
    case (Inl err)
    with Cons.prems e have "y = (Inl err, w1)" by simp
    with t1 u1 show ?thesis by auto
  next
    case (Inr members_data)
    with Cons.prems e have "members_for env etl rest (acc @ members_data) w1 = Some y" by simp
    from Cons.IH [OF this] obtain evs2 where
      "trace (snd y) = trace w1 @ evs2"
      "set (requested_urls evs2) \<subseteq> members_url env etl ` set rest"
      by blast
    with t1 u1 show ?thesis by auto
  qed
qed

lemma member_list_ids_first_three:
  assumes "member_list_ids None lists_data = Inr ids" and "l \<in> set ids"
  shows "\<exists>item \<in> set (take 3 lists_data). map_of item ''list_id'' = Some l"
proof -
  from assms(1) have "map_result (\<lambda>item. row_index item ''list_id'') (take 3 lists_data) = Inr ids"
    by (simp add: member_list_ids_def)
  from map_result_set [OF this assms(2)] show ?thesis
    by (auto simp: row_index_def split: option.splits)
qed

lemma members_url_neq [simp]:
  "members_url env etl l \<noteq> base_url etl @ ''/lists''"
  "members_url env etl l \<noteq> base_url etl @ ''/campaigns'' @ c"
  by (simp_all add: members_url_def members_endpoint_def)

lemma members_url_eq [simp]:
  "members_url env etl l = members_url env etl l' \<longleftrightarrow> py_str env l = py_str env l'"
  by (simp add: members_url_def members_endpoint_def)

lemma member_list_ids_Some:
  "member_list_ids None lists_data = Inr ids \<Longrightarrow>
     member_list_ids (Some ids) lists_data = Inr ids"
  by (simp add: member_list_ids_def)

lemma run_etl_specific:
  assumes "extract_lists env etl w = (Inr lists_data, w1)"
    and "member_list_ids None lists_data = Inr ids"
  shows "run_etl env etl include_members (Some ids) since_date output_format w
           = run_etl env etl include_members None since_date output_format w"
  unfolding run_etl_def assms(1) prod.case sum.case Let_def
    member_list_ids_Some [OF assms(2)] assms(2) ..

lemma run_etl_requests:
  assumes "extract_lists env etl w = (Inr lists_data, w1)"
    and "run_etl env etl True None since_date output_format w = Some (result, w')"
  shows "\<exists>evs. trace w' = trace w @ evs
           \<and> set (requested_urls evs)
                \<subseteq> {base_url etl @ ''/lists''} \<union> {u. \<exists>c. u = base_url etl @ ''/campaigns'' @ c}
                  \<union> members_url env etl `
                      {l. \<exists>item \<in> set (take 3 lists_data). map_of item ''list_id'' = Some l}"
proof -
  let ?A = "{base_url etl @ ''/lists''} \<union> {u. \<exists>c. u = base_url etl @ ''/campaigns'' @ c}"
  let ?S = "{l. \<exists>item \<in> set (take 3 lists_data). map_of item ''list_id'' = Some l}"
  let ?ok = "\<lambda>v. \<exists>evs. trace v = trace w @ evs
                 \<and> set (requested_urls evs) \<subseteq> ?A \<union> members_url env etl ` ?S"
  note run0 = assms(2) [unfolded run_etl_def assms(1) prod.case sum.case]
  have ok1: "?ok w1"
    using extract_lists_trace [OF assms(1)] by auto
  obtain r2 w2 where t2: "transform_data env ''lists'' lists_data w1 = (r2, w2)"
    by (cases "transform_data env ''lists'' lists_data w1")
  have ok2: "?ok w2" using ok1 transform_data_trace [OF t2] by simp
  show ?thesis
  proof (cases r2)
    case (Inl e)
    from run0 [unfolded t2 Inl prod.case sum.case] have "w' = w2" by simp
    with ok2 show ?thesis by simp
  next
    case ldf: (Inr lists_df)
    note run1 = run0 [unfolded t2 ldf prod.case sum.case]
    obtain r3 w3 where t3: "extract_campaigns env etl since_date w2 = (r3, w3)"
      by (cases "extract_campaigns env etl since_date w2")
    have ok3: "?ok w3"
    proof -
      from ok2 obtain e2 where a: "trace w2 = trace w @ e2"
        and b: "set (requested_urls e2) \<subseteq> ?A \<union> members_url env etl ` ?S" by blast
      from extract_campaigns_trace [OF t3] obtain e3 where c: "trace w3 = trace w2 @ e3"
        and d: "set (requested_urls e3) \<subseteq> {u. \<exists>c. u = base_url etl @ ''/campaigns'' @ c}" by blast
      have "trace w3 = trace w @ (e2 @ e3)" using a c by simp
      moreover have "set (requested_urls (e2 @ e3)) \<subseteq> ?A \<union> members_url env etl ` ?S"
        using b d by (simp only: requested_urls_append set_append) blast
      ultimately show ?thesis by blast
    qed
    show ?thesis
    proof (cases r3)
      case (Inl e)
      from run1 [unfolded t3 Inl prod.case sum.case] have "w' = w3" by simp
      with ok3 show ?thesis by simp
    next
      case cdata: (Inr campaigns_data)
      note run2 = run1 [unfolded t3 cdata prod.case sum.case]
      obtain r4 w4 where t4: "transform_data env ''campaigns'' campaigns_data w3 = (r4, w4)"
        by (cases "transform_data env ''campaigns'' campaigns_data w3")
      have ok4: "?ok w4" using ok3 transform_data_trace [OF t4] by simp
      show ?thesis
      proof (cases r4)
        case (Inl e)
        from run2 [unfolded t4 Inl prod.case sum.case] have "w' = w4" by simp
        with ok4 show ?thesis by simp
      next
        case cdf: (Inr campaigns_df)
        note run3 = run2 [unfolded t4 cdf prod.case sum.case Let_def if_True]
        show ?thesis
        proof (cases "member_list_ids None lists_data")
          case (Inl e)
          from run3 [unfolded Inl sum.case] have "w' = w4" by simp
          with ok4 show ?thesis by simp
        next
          case ids: (Inr list_ids)
          note run4 = run3 [unfolded ids sum.case]
          obtain y6 where m: "members_for env etl list_ids [] w4 = Some y6"
            using run4 by (cases "members_for env etl list_ids [] w4") simp_all
          obtain r6 w6 where y6: "y6 = (r6, w6)" by (cases y6)
          note run5 = run4 [unfolded m y6 option.case prod.case]
          have sub: "members_url env etl ` set list_ids \<subseteq> members_url env etl ` ?S"
            using member_list_ids_first_three [OF ids] by blast
          have ok6: "?ok w6"
          proof -
            from ok4 obtain e4 where a: "trace w4 = trace w @ e4"
              and b: "set (requested_urls e4) \<subseteq> ?A \<union> members_url env etl ` ?S" by blast
            from members_for_trace [OF m] y6 obtain e6 where c: "trace w6 = trace w4 @ e6"
              and d: "set (requested_urls e6) \<subseteq> members_url env etl ` set list_ids" by auto
            have "trace w6 = trace w @ (e4 @ e6)" using a c by simp
            moreover have "set (requested_urls (e4 @ e6)) \<subseteq> ?A \<union> members_url env etl ` ?S"
              using b d sub by (simp only: requested_urls_append set_append) blast
            ultimately show ?thesis by blast
          qed
          show ?thesis
          proof (cases r6)
            case (Inl e)
            from run5 [unfolded Inl sum.case] have "w' = w6" by simp
            with ok6 show ?thesis by simp
          next
            case all: (Inr all_members_data)
            note run6 = run5 [unfolded all sum.case]
            show ?thesis
            proof (cases "all_members_data = []")
              case True
              from run6 True
              have "load_data env [(''lists'', lists_df), (''campaigns'', campaigns_df)]
                      output_format ''mailchimp_data'' w6 = (result, w')"
                by simp
              from load_data_trace [OF this] ok6 show ?thesis by simp
            next
              case False
              note run7 = run6 [unfolded if_P [OF False]]
              obtain r7 w7 where t7: "transform_data env ''members'' all_members_data w6 = (r7, w7)"
                by (cases "transform_data env ''members'' all_members_data w6")
              have ok7: "?ok w7" using ok6 transform_data_trace [OF t7] by simp
              show ?thesis
              proof (cases r7)
                case (Inl e)
                from run7 [unfolded t7 Inl prod.case sum.case] have "w' = w7" by simp
                with ok7 show ?thesis by simp
              next
                case (Inr members_df)
                from run7 [unfolded t7 Inr prod.case sum.case]
                have "load_data env
                        ([(''lists'', lists_df), (''campaigns'', campaigns_df)]
                          @ [(''members'', members_df)])
                        output_format ''mailchimp_data'' w7 = (result, w')"
                  by simp
                from load_data_trace [OF this] ok7 show ?thesis by simp
              qed
            qed
          qed
        qed
      qed
    qed
  qed
qed


section \<open>Evaluating the examples\<close>

lemma frame_list_example:
  "DataFrame [list_example] =
     \<lparr>nrows = 1,
      cols = [(''list_id'', [Str ''l1'']), (''list_name'', [Str ''Main'']),
              (''member_count'', [Num 10]), (''unsubscribe_count'', [Num 1]),
              (''open_rate'', [Num (1 / 4)]), (''click_rate'', [Num (1 / 10)]),
              (''date_created'', [NA]), (''visibility'', [Str ''pub''])]\<rparr>"
  by (simp add: DataFrame_def frame_of_def df_columns_def row_cell_def list_example_def)

lemma transform_lists_example:
  "\<exists>df. transform_lists quiet_env (DataFrame [list_example]) = Inr df"
  unfolding frame_list_example
  by (simp add: transform_lists_def has_col_def get_col_def set_col_def parse_datetime_col_def
      quiet_env_def col_op_def col_scale_def fillna_def)

lemma transform_data_lists_example:
  "\<exists>df. transform_data quiet_env ''lists'' [list_example] w0 = (Inr df, w0\<lparr>clock_reads := 1\<rparr>)"
  using transform_lists_example
  by (auto simp add: transform_data_def Let_def frame_list_example df_empty_def now_def w0_def)

lemma frame_campaign_example:
  "DataFrame [campaign_example a b c d] =
  \<lparr>nrows = 1, cols = [(''campaign_id'', [Str ''c1'']), (''campaign_name'', [Str ''Newsletter'']),
      (''list_id'', [Str ''l1'']), (''send_time'', [NA]), (''emails_sent'', [cell_of b]),
      (''opens'', [Num 0]), (''unique_opens'', [cell_of c]), (''open_rate'', [cell_of a]),
      (''clicks'', [Num 0]), (''unique_clicks'', [cell_of d]), (''click_rate'', [Num 0]),
      (''unsubscribes'', [Num 0]), (''bounces'', [Num 0]),
      (''campaign_type'', [Str ''regular'']), (''status'', [Str ''sent''])]\<rparr>"
  by (simp add: DataFrame_def frame_of_def df_columns_def row_cell_def campaign_example_def)

lemma transform_campaign_example:
  "transform_data quiet_env ''campaigns''
     [campaign_example (JReal a) (JInt b) (JInt c) (JInt d)] w0 =
   (Inr \<lparr>nrows = 1, cols = [(''campaign_id'', [Str ''c1'']), (''campaign_name'', [Str ''Newsletter'']),
      (''list_id'', [Str ''l1'']), (''send_time'', [NA]), (''emails_sent'', [Num (of_int b)]),
      (''opens'', [Num 0]), (''unique_opens'', [Num (of_int c)]), (''open_rate'', [Num a]),
      (''clicks'', [Num 0]), (''unique_clicks'', [Num (of_int d)]), (''click_rate'', [Num 0]),
      (''unsubscribes'', [Num 0]), (''bounces'', [Num 0]),
      (''campaign_type'', [Str ''regular'']), (''status'', [Str ''sent'']),
      (''send_date'', [NA]), (''send_hour'', [NA]),
      (''engagement_rate'',
         fillna [cell_mul (cell_div (Num (of_int c + of_int d)) (Num (of_int b))) (Num 100)] (Num 0)),
      (''performance_category'',
         [cut_value (a * 100) [0, 15, 25, 35, 100] [''Low'', ''Medium'', ''High'', ''Excellent'']]),
      (''extracted_at'', [Time 1700000000]), (''data_source'', [Str ''mailchimp''])]\<rparr>,
    w0\<lparr>clock_reads := 1\<rparr>)"
  unfolding transform_data_def frame_campaign_example
  by (simp add: df_empty_def transform_campaigns_def parse_datetime_col_def has_col_def
      get_col_def set_col_def set_scalar_def quiet_env_def col_op_def col_scale_def cut_def
      now_def w0_def Let_def fillna_def)


lemma member_row_example:
  "member_row (JStr ''l1'') (member_json cc) = Inr (member_example cc)"
  by (simp add: member_row_def member_json_def member_example_def)

lemma frame_member_examples:
  "DataFrame [member_example a, member_example b] =
     \<lparr>nrows = 2,
      cols = [(''member_id'', [Str ''m1'', Str ''m1'']),
              (''email'', [Str ''a@example.org'', Str ''a@example.org'']),
              (''status'', [Str ''subscribed'', Str ''subscribed'']),
              (''list_id'', [Str ''l1'', Str ''l1'']),
              (''timestamp_signup'', [NA, NA]), (''timestamp_opt'', [NA, NA]),
              (''country_code'', [Str a, Str b]),
              (''timezone'', [NA, NA]), (''latitude'', [NA, NA]), (''longitude'', [NA, NA]),
              (''ip_signup'', [NA, NA]), (''ip_opt'', [NA, NA]), (''language'', [NA, NA]),
              (''member_rating'', [Num 0, Num 0]), (''email_client'', [NA, NA]),
              (''tags_count'', [Num 0, Num 0])]\<rparr>"
  by (simp add: DataFrame_def frame_of_def df_columns_def row_cell_def member_example_def)

lemma members_example_run:
  "\<exists>df. transform_data quiet_env ''members'' [member_example a, member_example b] w0
          = (Inr df, w0\<lparr>clock_reads := 2\<rparr>)
      \<and> get_col df ''country_code'' = Inr [Str a, Str b]"
  unfolding transform_data_def frame_member_examples
  by (simp add: df_empty_def transform_members_def parse_datetime_col_def has_col_def
      get_col_def set_col_def set_scalar_def quiet_env_def now_def w0_def Let_def)

lemma ga_example_data:
  "map_result (ga_row_data quiet_env ga_example) (report_rows ga_example) =
     Inr [[(''country'', Str ''Ukraine''), (''sessions'', Num 7), (''userEngagementDuration'', Num 21)],
          [(''country'', Str ''France''), (''sessions'', Num 0), (''userEngagementDuration'', Num 0)]]"
  by (simp add: ga_example_def ga_row_data_def convert_metric_def quiet_env_def)

lemma ga_example_run:
  "\<exists>df. ga_transform_data quiet_env ga_example w0 = (Inr df, w0\<lparr>clock_reads := 1\<rparr>)
      \<and> get_col df ''userEngagementDuration'' = Inr [Num 21, Num 0]
      \<and> get_col df ''sessions'' = Inr [Num 7, Num 0]"
  unfolding ga_transform_data_def ga_example_data
  by (simp add: frame_of_def df_columns_def row_cell_def has_col_def get_col_def set_col_def
      set_scalar_def col_op_def fillna_def inf_of_sign_def quiet_env_def now_def w0_def Let_def)

lemma ga_sessions_only_data:
  "map_result (ga_row_data quiet_env ga_sessions_only) (report_rows ga_sessions_only) =
     Inr [[(''country'', Str ''Ukraine''), (''sessions'', Num 7)]]"
  by (simp add: ga_sessions_only_def ga_row_data_def convert_metric_def quiet_env_def)

lemma ga_sessions_only_run:
  "ga_transform_data quiet_env ga_sessions_only w0 =
     (Inr \<lparr>nrows = 1, cols = [(''country'', [Str ''Ukraine'']), (''sessions'', [Num 7]),
                               (''extracted_at'', [Time 1700000000])]\<rparr>,
      w0\<lparr>clock_reads := 1\<rparr>)"
  unfolding ga_transform_data_def ga_sessions_only_data
  by (simp add: frame_of_def df_columns_def row_cell_def has_col_def get_col_def set_col_def
      set_scalar_def quiet_env_def now_def w0_def Let_def)

lemma members_server_page:
  "http_get (members_server all_members) k
      (mk_request etl endpoint (Some (members_params 1000 offset status)))
   = Some \<lparr>status_code = 200,
           json_body = Some (JObj [(''members'', JArr (take 1000 (drop (nat offset) all_members)))])\<rparr>"
  by (simp add: members_server_def mk_request_def members_params_def)


text \<open>A run against the server with four lists.\<close>

lemma four_lists_server_answers:
  "http_get four_lists_server k (mk_request demo_etl ''lists'' ps) =
     Some \<lparr>status_code = 200,
           json_body = Some (JObj [(''lists'',
             JArr [list_json ''l1'', list_json ''l2'', list_json ''l3'', list_json ''l4''])])\<rparr>"
  "http_get four_lists_server k (mk_request demo_etl ''campaigns'' ps) =
     Some \<lparr>status_code = 200, json_body = Some (JObj [(''campaigns'', JArr [])])\<rparr>"
  "http_get four_lists_server k (mk_request demo_etl (members_endpoint four_lists_server l) ps) =
     Some \<lparr>status_code = 200, json_body = Some (JObj [(''members'', JArr [])])\<rparr>"
  by (simp_all add: four_lists_server_def mk_request_def members_endpoint_def)

lemma list_row_list_json: "list_row (list_json i) = Inr (list_row_example i)"
  by (simp add: list_row_def list_json_def py_index2_def list_row_example_def)

lemma extract_lists_four:
  "extract_lists four_lists_server demo_etl w =
     (Inr (map list_row_example [''l1'', ''l2'', ''l3'', ''l4'']),
      w\<lparr>trace := trace w @ [Get (mk_request demo_etl ''lists'' (Some [(''count'', JInt 1000)]))]\<rparr>)"
  by (simp add: extract_lists_def make_request_once four_lists_server_answers
      raise_for_status_def list_row_list_json)

lemma extract_campaigns_four:
  "\<exists>w'. extract_campaigns four_lists_server demo_etl None w = (Inr [], w')"
  by (simp add: extract_campaigns_def make_request_once four_lists_server_answers
      raise_for_status_def)

lemma frame_four_lists:
  "DataFrame (map list_row_example [''l1'', ''l2'', ''l3'', ''l4'']) =
     \<lparr>nrows = 4,
      cols = [(''list_id'', [Str ''l1'', Str ''l2'', Str ''l3'', Str ''l4'']),
              (''list_name'', [Str ''Main'', Str ''Main'', Str ''Main'', Str ''Main'']),
              (''member_count'', [Num 10, Num 10, Num 10, Num 10]),
              (''unsubscribe_count'', [Num 1, Num 1, Num 1, Num 1]),
              (''open_rate'', [Num (1 / 4), Num (1 / 4), Num (1 / 4), Num (1 / 4)]),
              (''click_rate'', [Num (1 / 10), Num (1 / 10), Num (1 / 10), Num (1 / 10)]),
              (''date_created'', [NA, NA, NA, NA]),
              (''visibility'', [Str ''private'', Str ''private'', Str ''private'',
                                Str ''private''])]\<rparr>"
  by (simp add: DataFrame_def frame_of_def df_columns_def row_cell_def list_row_example_def)

lemma transform_lists_four:
  "\<exists>df. transform_lists four_lists_server
          (DataFrame (map list_row_example [''l1'', ''l2'', ''l3'', ''l4''])) = Inr df"
  unfolding frame_four_lists
  by (simp add: transform_lists_def has_col_def get_col_def set_col_def parse_datetime_col_def
      four_lists_server_def quiet_env_def col_op_def col_scale_def fillna_def)

lemma transform_data_four_lists:
  "\<exists>df w'. transform_data four_lists_server ''lists''
             (map list_row_example [''l1'', ''l2'', ''l3'', ''l4'']) w = (Inr df, w')"
proof -
  from transform_lists_four obtain df where
    "transform_lists four_lists_server
       (DataFrame (map list_row_example [''l1'', ''l2'', ''l3'', ''l4''])) = Inr df" ..
  moreover have "\<not> df_empty (DataFrame (map list_row_example [''l1'', ''l2'', ''l3'', ''l4'']))"
    unfolding frame_four_lists by (simp add: df_empty_def)
  ultimately show ?thesis
    by (simp add: transform_data_def Let_def now_def)
qed

lemma transform_data_no_rows: "transform_data env data_type [] w = (Inr (DataFrame []), w)"
  by (simp add: transform_data_def Let_def df_empty_def)

lemma extract_members_no_members:
  "\<exists>w'. extract_members four_lists_server demo_etl l ''subscribed'' w = Some (Inr [], w')"
proof -
  have "serves_pages four_lists_server demo_etl l ''subscribed'' [] (n_requests w) 0"
    by (simp add: four_lists_server_answers)
  moreover have "map_result (member_row l) (concat []) = Inr []" by simp
  ultimately obtain w' where
    "members_loop four_lists_server demo_etl l ''subscribed'' 1000 [] 0 w = Some (Inr ([] @ []), w')"
    using members_loop_pages [of four_lists_server demo_etl l "''subscribed''" "[]" w 0 "[]" "[]"]
    by blast
  then show ?thesis by (simp add: extract_members_def)
qed

lemma members_for_no_members:
  "\<exists>w'. members_for four_lists_server demo_etl ids [] w = Some (Inr [], w')"
proof (induction ids arbitrary: w)
  case Nil
  show ?case by simp
next
  case (Cons l ids)
  from extract_members_no_members [of l w] obtain w1 where
    "extract_members four_lists_server demo_etl l ''subscribed'' w = Some (Inr [], w1)" ..
  with Cons [of w1] show ?case by simp
qed

lemma first_three_of_four:
  "member_list_ids None (map list_row_example [''l1'', ''l2'', ''l3'', ''l4'']) =
     Inr [JStr ''l1'', JStr ''l2'', JStr ''l3'']"
  by (simp add: member_list_ids_def row_index_def list_row_example_def)

lemma run_etl_four_lists:
  "\<exists>result w'. run_etl four_lists_server demo_etl True None None ''csv'' w0 = Some (result, w')"
proof -
  let ?rows = "map list_row_example [''l1'', ''l2'', ''l3'', ''l4'']"
  let ?w1 = "w0\<lparr>trace := trace w0 @
               [Get (mk_request demo_etl ''lists'' (Some [(''count'', JInt 1000)]))]\<rparr>"
  from transform_data_four_lists [of ?w1] obtain lists_df w2 where
    t1: "transform_data four_lists_server ''lists'' ?rows ?w1 = (Inr lists_df, w2)"
    by (elim exE)
  from extract_campaigns_four [of w2] obtain w3 where
    e2: "extract_campaigns four_lists_server demo_etl None w2 = (Inr [], w3)" ..
  from members_for_no_members [of "[JStr ''l1'', JStr ''l2'', JStr ''l3'']" w3] obtain w4 where
    m: "members_for four_lists_server demo_etl [JStr ''l1'', JStr ''l2'', JStr ''l3''] [] w3
          = Some (Inr [], w4)" ..
  have "run_etl four_lists_server demo_etl True None None ''csv'' w0 =
          Some (load_data four_lists_server
                  [(''lists'', lists_df), (''campaigns'', DataFrame [])]
                  ''csv'' ''mailchimp_data'' w4)"
    unfolding run_etl_def extract_lists_four prod.case sum.case t1 e2 transform_data_no_rows
      first_three_of_four Let_def if_True m option.case
    by simp
  then show ?thesis by (metis surj_pair)
qed


section \<open>The claims\<close>

text \<open>
  C8 (as amended). For every input row list that gives a non-empty table and every data
  type, a table returned by \<open>transform_data\<close> has an \<open>extracted_at\<close> column holding, in
  every row, the wall-clock reading taken at the end of the transform, and a
  \<open>data_source\<close> column holding \<open>mailchimp\<close> in every row. For an input that gives an
  empty table the transform returns that table as it is, without reading the clock; it
  has no column at all, so neither of the two.
\<close>

theorem transform_data_provenance:
  "(df_empty (DataFrame raw_data) \<longrightarrow>
      transform_data env data_type raw_data w = (Inr (DataFrame raw_data), w)
      \<and> cols (DataFrame raw_data) = [])
   \<and> (\<not> df_empty (DataFrame raw_data) \<longrightarrow>
      (\<forall>df w'. transform_data env data_type raw_data w = (Inr df, w') \<longrightarrow>
         clock_reads w < clock_reads w'
         \<and> get_col df ''extracted_at'' =
             Inr (replicate (length raw_data) (Time (wall_clock env (clock_reads w' - 1))))
         \<and> get_col df ''data_source'' =
             Inr (replicate (length raw_data) (Str ''mailchimp''))))"
proof (intro conjI impI allI)
  assume "df_empty (DataFrame raw_data)"
  then show "transform_data env data_type raw_data w = (Inr (DataFrame raw_data), w)"
    by (simp add: transform_data_def)
next
  assume "df_empty (DataFrame raw_data)"
  then show "cols (DataFrame raw_data) = []" by (rule df_empty_no_cols)
next
  fix df w'
  assume ne: "\<not> df_empty (DataFrame raw_data)"
    and run: "transform_data env data_type raw_data w = (Inr df, w')"
  define step where "step =
     (if data_type = ''campaigns'' then (transform_campaigns env (DataFrame raw_data), w)
      else if data_type = ''members'' then transform_members env (DataFrame raw_data) w
      else if data_type = ''lists'' then (transform_lists env (DataFrame raw_data), w)
      else (Inr (DataFrame raw_data), w))"
  from ne run obtain df1 w1 where step: "step = (Inr df1, w1)"
    and df: "df = set_scalar (set_scalar df1 ''extracted_at'' (Time (wall_clock env (clock_reads w1))))
                    ''data_source'' (Str ''mailchimp'')"
    and w': "w' = w1\<lparr>clock_reads := Suc (clock_reads w1)\<rparr>"
    unfolding transform_data_def step_def [symmetric] Let_def
    by (auto simp: now_def split: prod.splits sum.splits)
  have n: "nrows df1 = length raw_data \<and> clock_reads w \<le> clock_reads w1"
    using step unfolding step_def
    by (auto split: if_splits
        dest: nrows_transform_campaigns nrows_transform_lists transform_members_steps)
  show "clock_reads w < clock_reads w'" using n w' by simp
  show "get_col df ''extracted_at'' =
             Inr (replicate (length raw_data) (Time (wall_clock env (clock_reads w' - 1))))"
    by (simp add: df w' set_scalar_def get_col_set_col n)
  show "get_col df ''data_source'' = Inr (replicate (length raw_data) (Str ''mailchimp''))"
    by (simp add: df set_scalar_def get_col_set_col n)
qed

theorem transform_data_provenance_witness:
  "df_empty (DataFrame []) \<and> cols (DataFrame []) = []
   \<and> \<not> df_empty (DataFrame [list_example])
   \<and> (\<exists>df. transform_data quiet_env ''lists'' [list_example] w0
             = (Inr df, w0\<lparr>clock_reads := 1\<rparr>)
          \<and> get_col df ''extracted_at'' = Inr [Time 1700000000]
          \<and> get_col df ''data_source'' = Inr [Str ''mailchimp''])"
proof -
  have e: "df_empty (DataFrame [])"
    by (simp add: df_empty_def)
  have ne: "\<not> df_empty (DataFrame [list_example])"
    by (simp add: frame_list_example df_empty_def)
  obtain df where run:
    "transform_data quiet_env ''lists'' [list_example] w0 = (Inr df, w0\<lparr>clock_reads := 1\<rparr>)"
    using transform_data_lists_example by blast
  have "get_col df ''extracted_at'' = Inr [Time 1700000000]
      \<and> get_col df ''data_source'' = Inr [Str ''mailchimp'']"
    using transform_data_provenance [of "[list_example]" quiet_env "''lists''" w0] ne run
    by (simp add: quiet_env_def)
  moreover have "cols (DataFrame []) = []"
    using transform_data_provenance [of "[]" quiet_env "''lists''" w0] e by blast
  ultimately show ?thesis using e ne run by blast
qed

text \<open>The claim as stated fails for the empty input: the table returned has neither
  column.\<close>

theorem transform_data_empty_counterexample:
  "transform_data quiet_env ''lists'' [] w0 = (Inr \<lparr>nrows = 0, cols = []\<rparr>, w0)
   \<and> get_col \<lparr>nrows = 0, cols = []\<rparr> ''extracted_at'' = Inl (KeyError ''extracted_at'')
   \<and> get_col \<lparr>nrows = 0, cols = []\<rparr> ''data_source'' = Inl (KeyError ''data_source'')"
  by (simp add: transform_data_def DataFrame_def frame_of_def df_columns_def df_empty_def
      get_col_def)

text \<open>
  C10. For every output format whose lowercase form is none of \<open>csv\<close>, \<open>excel\<close> and
  \<open>json\<close>, \<open>load_data\<close> of either pipeline raises (the local \<open>filename\<close> was never
  assigned) instead of returning a path; it has created the output directory and read the
  clock, and the files are those there were before.
\<close>

theorem load_data_unknown_format:
  assumes "lower output_format \<notin> {''csv'', ''excel'', ''json''}"
  shows "load_data env tables output_format output_path w =
           (Inl (UnboundLocalError ''filename''),
            (makedirs ''output'' w)\<lparr>clock_reads := Suc (clock_reads w)\<rparr>)
         \<and> ga_load_data env df output_format ga_path w =
           (Inl (UnboundLocalError ''filename''),
            (makedirs ''output'' w)\<lparr>clock_reads := Suc (clock_reads w)\<rparr>)
         \<and> files ((makedirs ''output'' w)\<lparr>clock_reads := Suc (clock_reads w)\<rparr>) = files w
         \<and> set (dirs ((makedirs ''output'' w)\<lparr>clock_reads := Suc (clock_reads w)\<rparr>))
             = insert ''output'' (set (dirs w))"
  using assms
  by (auto simp add: load_data_def ga_load_data_def now_def makedirs_def Let_def)

theorem load_data_unknown_format_witness:
  "lower ''XML'' \<notin> {''csv'', ''excel'', ''json''}
   \<and> load_data quiet_env [(''lists'', DataFrame [list_example])] ''XML'' ''mailchimp_data'' w0
       = (Inl (UnboundLocalError ''filename''),
          \<lparr>trace = [], clock_reads = 1, dirs = [''output''], files = []\<rparr>)
   \<and> ga_load_data quiet_env (DataFrame [list_example]) ''XML'' ''ga_data'' w0
       = (Inl (UnboundLocalError ''filename''),
          \<lparr>trace = [], clock_reads = 1, dirs = [''output''], files = []\<rparr>)"
proof -
  have h: "lower ''XML'' \<notin> {''csv'', ''excel'', ''json''}"
    by (simp add: lower_def lower_char_def)
  have w: "(makedirs ''output'' w0)\<lparr>clock_reads := Suc (clock_reads w0)\<rparr>
            = \<lparr>trace = [], clock_reads = 1, dirs = [''output''], files = []\<rparr>"
    by (simp add: makedirs_def w0_def)
  show ?thesis
    using load_data_unknown_format [OF h, of quiet_env
        "[(''lists'', DataFrame [list_example])]" "''mailchimp_data''" w0
        "DataFrame [list_example]" "''ga_data''"] h
    unfolding w by blast
qed





text \<open>
  C3. The claim says that \<open>engagement_rate\<close> is 0 whenever \<open>emails_sent\<close> is 0, also when
  the numerator is not zero. On the row with \<open>emails_sent = 0\<close>, \<open>unique_opens = 1\<close> and
  \<open>unique_clicks = 0\<close> the division gives an infinity, which \<^verbatim>\<open>fillna(0)\<close> does not
  replace: the column holds \<open>+inf\<close>, not 0.
\<close>

theorem engagement_rate_zero_sent:
  "bind_result (fst (transform_data quiet_env ''campaigns''
        [campaign_example (JReal 0) (JInt 0) (JInt 1) (JInt 0)] w0))
      (\<lambda>df. get_col df ''emails_sent'') = Inr [Num 0]
   \<and> bind_result (fst (transform_data quiet_env ''campaigns''
        [campaign_example (JReal 0) (JInt 0) (JInt 1) (JInt 0)] w0))
      (\<lambda>df. get_col df ''engagement_rate'') = Inr [PInf]"
  unfolding transform_campaign_example
  by (simp add: get_col_def fillna_def inf_of_sign_def)

text \<open>
  C7. In a transformed members table that has a \<open>country_code\<close> column, every row's
  \<open>country_name\<close> is the name the static table gives for the row's \<open>country_code\<close> when
  the code is one of UA, RU, US, GB, DE, FR, and is the \<open>country_code\<close> value itself
  otherwise (so the code \<open>XX\<close> gives the name \<open>XX\<close>, and a missing code a missing name).
\<close>

theorem country_name_lookup:
  assumes "transform_data env ''members'' raw_data w = (Inr df, w')"
    and "has_col df ''country_code''"
    and "i < length raw_data"
  shows "\<exists>code name.
           get_col df ''country_code'' = Inr code \<and> get_col df ''country_name'' = Inr name
         \<and> length code = length raw_data \<and> length name = length raw_data
         \<and> (code ! i = Str ''UA'' \<longrightarrow> name ! i = Str ''Ukraine'')
         \<and> (code ! i = Str ''RU'' \<longrightarrow> name ! i = Str ''Russia'')
         \<and> (code ! i = Str ''US'' \<longrightarrow> name ! i = Str ''United States'')
         \<and> (code ! i = Str ''GB'' \<longrightarrow> name ! i = Str ''United Kingdom'')
         \<and> (code ! i = Str ''DE'' \<longrightarrow> name ! i = Str ''Germany'')
         \<and> (code ! i = Str ''FR'' \<longrightarrow> name ! i = Str ''France'')
         \<and> (code ! i \<notin> Str ` {''UA'', ''RU'', ''US'', ''GB'', ''DE'', ''FR''}
              \<longrightarrow> name ! i = code ! i)"
proof -
  from transform_data_members_cols [OF assms(1,2)] obtain df1 w1 where
    t: "transform_members env (DataFrame raw_data) w = (Inr df1, w1)"
    and same: "\<forall>c'. c' \<noteq> ''extracted_at'' \<longrightarrow> c' \<noteq> ''data_source'' \<longrightarrow>
                  get_col df c' = get_col df1 c'"
    by (elim exE conjE)
  have s1: "get_col df ''country_code'' = get_col df1 ''country_code''"
    and s2: "get_col df ''country_name'' = get_col df1 ''country_name''"
    using same by simp_all
  have h1: "has_col df1 ''country_code''"
    using assms(2) s1 by (simp add: has_col_get_col)
  note tc = transform_members_country [OF t]
  have h0: "has_col (DataFrame raw_data) ''country_code''"
  proof (rule ccontr)
    assume "\<not> has_col (DataFrame raw_data) ''country_code''"
    with tc have "\<not> has_col df1 ''country_code''" by (elim conjE) (erule mp)
    with h1 show False by simp
  qed
  with tc obtain code where
    c0: "get_col (DataFrame raw_data) ''country_code'' = Inr code"
    and c1: "get_col df1 ''country_code'' = Inr code"
    and n1: "get_col df1 ''country_name''
               = Inr (fillna_col (map (map_cell country_mapping) code) code)"
    by (elim conjE) (drule (1) mp, elim exE conjE)
  let ?name = "fillna_col (map (map_cell country_mapping) code) code"
  have len: "length code = length raw_data" using c0 by (rule get_col_DataFrame)
  then have ln: "length ?name = length raw_data" by (simp add: fillna_col_def)
  have nth: "?name ! i = (if map_cell country_mapping (code ! i) = NA then code ! i
                          else map_cell country_mapping (code ! i))"
    using assms(3) len by (simp add: fillna_col_nth)
  note rows = country_name_cell [of "code ! i", folded nth]
  have g1: "get_col df ''country_code'' = Inr code" using c1 s1 by simp
  have g2: "get_col df ''country_name'' = Inr ?name" using n1 s2 by simp
  show ?thesis
    apply (rule exI [of _ code])
    apply (rule exI [of _ ?name])
    apply (intro conjI)
              apply (rule g1)
             apply (rule g2)
            apply (rule len)
           apply (rule ln)
    using rows apply simp_all
    done
qed


theorem country_name_lookup_witness:
  "\<exists>df w' name.
      transform_data quiet_env ''members'' [member_example ''UA'', member_example ''XX''] w0
        = (Inr df, w')
    \<and> has_col df ''country_code''
    \<and> get_col df ''country_code'' = Inr [Str ''UA'', Str ''XX'']
    \<and> get_col df ''country_name'' = Inr name
    \<and> name ! 0 = Str ''Ukraine'' \<and> name ! 1 = Str ''XX''"
proof -
  let ?raw = "[member_example ''UA'', member_example ''XX'']"
  from members_example_run [of "''UA''" "''XX''"] obtain df where
    run: "transform_data quiet_env ''members'' ?raw w0 = (Inr df, w0\<lparr>clock_reads := 2\<rparr>)"
    and code: "get_col df ''country_code'' = Inr [Str ''UA'', Str ''XX'']"
    by (elim exE conjE)
  have h: "has_col df ''country_code''" using code by (simp add: has_col_get_col)
  from country_name_lookup [OF run h, of 0] code obtain name where
    n: "get_col df ''country_name'' = Inr name" and n0: "name ! 0 = Str ''Ukraine''"
    by auto
  from country_name_lookup [OF run h, of 1] code n have n1: "name ! 1 = Str ''XX''"
    by auto
  from run h code n n0 n1 show ?thesis by blast
qed

text \<open>
  C5 (as amended). In a transformed analytics table in which both the
  \<open>userEngagementDuration\<close> and the \<open>sessions\<close> column are present, every row's
  \<open>avg_engagement_duration\<close> is \<open>userEngagementDuration / sessions\<close> when \<open>sessions\<close> is
  positive, is 0 when both are 0, and is 0 when either value is missing in that row.
  When either column is absent from the table (and no header of the report is itself
  called \<open>avg_engagement_duration\<close>) the table has no \<open>avg_engagement_duration\<close> column.
\<close>

theorem avg_engagement_duration_rows:
  assumes "ga_transform_data env resp w = (Inr df, w')"
  shows "(has_col df ''userEngagementDuration'' \<and> has_col df ''sessions'' \<longrightarrow>
           (\<exists>dur sess avg.
               get_col df ''userEngagementDuration'' = Inr dur
             \<and> get_col df ''sessions'' = Inr sess
             \<and> get_col df ''avg_engagement_duration'' = Inr avg
             \<and> length dur = length (report_rows resp)
             \<and> length sess = length (report_rows resp)
             \<and> length avg = length (report_rows resp)
             \<and> (\<forall>i < length (report_rows resp).
                   (\<forall>d s. dur ! i = Num d \<and> sess ! i = Num s \<and> 0 < s
                            \<longrightarrow> avg ! i = Num (d / s))
                 \<and> (dur ! i = Num 0 \<and> sess ! i = Num 0 \<longrightarrow> avg ! i = Num 0)
                 \<and> (dur ! i = NA \<or> sess ! i = NA \<longrightarrow> avg ! i = Num 0))))
       \<and> (\<not> (has_col df ''userEngagementDuration'' \<and> has_col df ''sessions'')
            \<and> ''avg_engagement_duration''
                 \<notin> set (dimension_headers resp) \<union> set (metric_headers resp)
          \<longrightarrow> \<not> has_col df ''avg_engagement_duration'')"
proof -
  from assms obtain data dfa dfb dfc where
    data: "map_result (ga_row_data env resp) (report_rows resp) = Inr data"
    and a: "(if has_col (frame_of data) ''date'' then
                bind_result (get_col (frame_of data) ''date'') (\<lambda>d.
                bind_result (to_datetime env d) (\<lambda>parsed.
                Inr (set_col (frame_of data) ''date'' parsed)))
              else Inr (frame_of data)) = Inr dfa"
    and b: "(if has_col dfa ''country'' then
                bind_result (get_col dfa ''country'') (\<lambda>c.
                Inr (set_col dfa ''country'' (map (clean_country env) c)))
              else Inr dfa) = Inr dfb"
    and c: "(if has_col dfb ''userEngagementDuration'' \<and> has_col dfb ''sessions'' then
             bind_result (get_col dfb ''userEngagementDuration'') (\<lambda>duration.
             bind_result (get_col dfb ''sessions'') (\<lambda>sessions.
             bind_result (col_op cell_div duration sessions) (\<lambda>avg.
             let df = set_col dfb ''avg_engagement_duration'' avg
             in Inr (set_col df ''avg_engagement_duration'' (fillna avg (Num 0))))))
           else Inr dfb) = Inr dfc"
    and df: "df = set_scalar dfc ''extracted_at'' (Time (wall_clock env (clock_reads w)))"
    by (rule ga_transform_data_stages)
  let ?n = "length (report_rows resp)"
  have n: "length data = ?n" using data by (rule map_result_length)
  have col0: "\<And>c v. c \<noteq> ''date'' \<Longrightarrow> c \<noteq> ''country'' \<Longrightarrow> get_col dfb c = Inr v
                \<Longrightarrow> length v = ?n"
    using ga_date_step [OF a] ga_country_step [OF b] get_col_frame_of [of data] n by metis
  have has0: "\<And>c. has_col dfb c = has_col (frame_of data) c"
    using ga_date_step [OF a] ga_country_step [OF b] by simp
  show ?thesis
  proof (cases "has_col dfb ''userEngagementDuration'' \<and> has_col dfb ''sessions''")
    case True
    with c obtain dur sess avg0 where
      dur: "get_col dfb ''userEngagementDuration'' = Inr dur"
      and sess: "get_col dfb ''sessions'' = Inr sess"
      and avg0: "col_op cell_div dur sess = Inr avg0"
      and dfc: "dfc = set_col (set_col dfb ''avg_engagement_duration'' avg0)
                       ''avg_engagement_duration'' (fillna avg0 (Num 0))"
      by (auto simp: Let_def elim!: bind_result_InrE)
    have ld: "length dur = ?n"
      by (rule col0 [OF _ _ dur]) simp_all
    have ls: "length sess = ?n"
      by (rule col0 [OF _ _ sess]) simp_all
    have la: "length avg0 = ?n" using col_op_length [OF avg0] ld ls by simp
    have g1: "get_col df ''userEngagementDuration'' = Inr dur"
      and g2: "get_col df ''sessions'' = Inr sess"
      and g3: "get_col df ''avg_engagement_duration'' = Inr (fillna avg0 (Num 0))"
      using dur sess by (simp_all add: df dfc set_scalar_def get_col_set_col)
    have rows: "\<forall>i < ?n.
                   (\<forall>d s. dur ! i = Num d \<and> sess ! i = Num s \<and> 0 < s
                            \<longrightarrow> fillna avg0 (Num 0) ! i = Num (d / s))
                 \<and> (dur ! i = Num 0 \<and> sess ! i = Num 0 \<longrightarrow> fillna avg0 (Num 0) ! i = Num 0)
                 \<and> (dur ! i = NA \<or> sess ! i = NA \<longrightarrow> fillna avg0 (Num 0) ! i = Num 0)"
    proof (intro allI impI)
      fix i assume i: "i < ?n"
      have "avg0 ! i = cell_div (dur ! i) (sess ! i)"
        using col_op_nth [OF avg0, of i] i ld ls by simp
      then have "fillna avg0 (Num 0) ! i =
                   (if cell_div (dur ! i) (sess ! i) = NA then Num 0
                    else cell_div (dur ! i) (sess ! i))"
        using i la by (simp add: fillna_nth)
      then show "(\<forall>d s. dur ! i = Num d \<and> sess ! i = Num s \<and> 0 < s
                            \<longrightarrow> fillna avg0 (Num 0) ! i = Num (d / s))
                 \<and> (dur ! i = Num 0 \<and> sess ! i = Num 0 \<longrightarrow> fillna avg0 (Num 0) ! i = Num 0)
                 \<and> (dur ! i = NA \<or> sess ! i = NA \<longrightarrow> fillna avg0 (Num 0) ! i = Num 0)"
        by (auto simp: inf_of_sign_def)
    qed
    have both: "has_col df ''userEngagementDuration'' \<and> has_col df ''sessions''"
      using g1 g2 by (auto simp: has_col_get_col)
    have "\<exists>dur sess avg.
               get_col df ''userEngagementDuration'' = Inr dur
             \<and> get_col df ''sessions'' = Inr sess
             \<and> get_col df ''avg_engagement_duration'' = Inr avg
             \<and> length dur = ?n \<and> length sess = ?n \<and> length avg = ?n
             \<and> (\<forall>i < ?n.
                   (\<forall>d s. dur ! i = Num d \<and> sess ! i = Num s \<and> 0 < s
                            \<longrightarrow> avg ! i = Num (d / s))
                 \<and> (dur ! i = Num 0 \<and> sess ! i = Num 0 \<longrightarrow> avg ! i = Num 0)
                 \<and> (dur ! i = NA \<or> sess ! i = NA \<longrightarrow> avg ! i = Num 0))"
      apply (rule exI [of _ dur])
      apply (rule exI [of _ sess])
      apply (rule exI [of _ "fillna avg0 (Num 0)"])
      using g1 g2 g3 ld ls la rows apply simp
      done
    with both show ?thesis by simp
  next
    case False
    with c have dfc: "dfc = dfb" by simp
    have h: "\<And>c. c \<noteq> ''extracted_at'' \<Longrightarrow> has_col df c = has_col (frame_of data) c"
      using has0 by (simp add: df dfc set_scalar_def has_col_set_col)
    have nb: "\<not> (has_col df ''userEngagementDuration'' \<and> has_col df ''sessions'')"
      using False has0 h by simp
    have absent: "\<not> has_col df ''avg_engagement_duration''"
      if out: "''avg_engagement_duration''
                 \<notin> set (dimension_headers resp) \<union> set (metric_headers resp)"
    proof
      assume "has_col df ''avg_engagement_duration''"
      then have "has_col (frame_of data) ''avg_engagement_duration''" using h by simp
      then obtain rd where rd: "rd \<in> set data" and k: "''avg_engagement_duration'' \<in> fst ` set rd"
        by (auto simp: has_col_frame_of)
      from map_result_set [OF data rd] obtain r where "ga_row_data env resp r = Inr rd" by blast
      from ga_row_data_keys [OF this] k out show False by blast
    qed
    show ?thesis
    proof (intro conjI impI)
      assume "has_col df ''userEngagementDuration'' \<and> has_col df ''sessions''"
      with nb show "\<exists>dur sess avg.
               get_col df ''userEngagementDuration'' = Inr dur
             \<and> get_col df ''sessions'' = Inr sess
             \<and> get_col df ''avg_engagement_duration'' = Inr avg
             \<and> length dur = length (report_rows resp)
             \<and> length sess = length (report_rows resp)
             \<and> length avg = length (report_rows resp)
             \<and> (\<forall>i < length (report_rows resp).
                   (\<forall>d s. dur ! i = Num d \<and> sess ! i = Num s \<and> 0 < s
                            \<longrightarrow> avg ! i = Num (d / s))
                 \<and> (dur ! i = Num 0 \<and> sess ! i = Num 0 \<longrightarrow> avg ! i = Num 0)
                 \<and> (dur ! i = NA \<or> sess ! i = NA \<longrightarrow> avg ! i = Num 0))"
        by (rule notE)
    next
      assume "\<not> (has_col df ''userEngagementDuration'' \<and> has_col df ''sessions'')
            \<and> ''avg_engagement_duration''
                 \<notin> set (dimension_headers resp) \<union> set (metric_headers resp)"
      then show "\<not> has_col df ''avg_engagement_duration''"
        by (intro absent) (erule conjunct2)
    qed
  qed
qed


theorem avg_engagement_duration_rows_witness:
  "(\<exists>df w' avg. ga_transform_data quiet_env ga_example w0 = (Inr df, w')
       \<and> get_col df ''userEngagementDuration'' = Inr [Num 21, Num 0]
       \<and> get_col df ''sessions'' = Inr [Num 7, Num 0]
       \<and> get_col df ''avg_engagement_duration'' = Inr avg
       \<and> avg ! 0 = Num 3 \<and> avg ! 1 = Num 0)
   \<and> (\<exists>df w'. ga_transform_data quiet_env ga_sessions_only w0 = (Inr df, w')
       \<and> \<not> has_col df ''userEngagementDuration''
       \<and> \<not> has_col df ''avg_engagement_duration'')"
proof -
  from ga_example_run obtain df where
    run: "ga_transform_data quiet_env ga_example w0 = (Inr df, w0\<lparr>clock_reads := 1\<rparr>)"
    and d: "get_col df ''userEngagementDuration'' = Inr [Num 21, Num 0]"
    and s: "get_col df ''sessions'' = Inr [Num 7, Num 0]"
    by (elim exE conjE)
  have both: "has_col df ''userEngagementDuration'' \<and> has_col df ''sessions''"
    using d s by (simp add: has_col_get_col)
  have n: "length (report_rows ga_example) = 2" by (simp add: ga_example_def)
  from avg_engagement_duration_rows [OF run] both d s obtain avg where
    a: "get_col df ''avg_engagement_duration'' = Inr avg"
    and rows: "\<forall>i < length (report_rows ga_example).
                   (\<forall>d s. [Num 21, Num 0] ! i = Num d \<and> [Num 7, Num 0] ! i = Num s \<and> 0 < s
                            \<longrightarrow> avg ! i = Num (d / s))
                 \<and> ([Num 21, Num 0] ! i = Num 0 \<and> [Num 7, Num 0] ! i = Num 0 \<longrightarrow> avg ! i = Num 0)"
    by auto
  from rows [rule_format, of 0] n have a0: "avg ! 0 = Num 3" by simp
  from rows [rule_format, of 1] n have a1: "avg ! 1 = Num 0" by simp
  have first: "\<exists>df w' avg. ga_transform_data quiet_env ga_example w0 = (Inr df, w')
       \<and> get_col df ''userEngagementDuration'' = Inr [Num 21, Num 0]
       \<and> get_col df ''sessions'' = Inr [Num 7, Num 0]
       \<and> get_col df ''avg_engagement_duration'' = Inr avg
       \<and> avg ! 0 = Num 3 \<and> avg ! 1 = Num 0"
    using run d s a a0 a1 by blast
  let ?df = "\<lparr>nrows = 1, cols = [(''country'', [Str ''Ukraine'']), (''sessions'', [Num 7]),
                               (''extracted_at'', [Time 1700000000])]\<rparr>"
  have nd: "\<not> has_col ?df ''userEngagementDuration''" by (simp add: has_col_def)
  have out: "''avg_engagement_duration''
               \<notin> set (dimension_headers ga_sessions_only) \<union> set (metric_headers ga_sessions_only)"
    by (simp add: ga_sessions_only_def)
  from avg_engagement_duration_rows [OF ga_sessions_only_run] nd out
  have "\<not> has_col ?df ''avg_engagement_duration''" by blast
  with nd ga_sessions_only_run have second:
    "\<exists>df w'. ga_transform_data quiet_env ga_sessions_only w0 = (Inr df, w')
       \<and> \<not> has_col df ''userEngagementDuration''
       \<and> \<not> has_col df ''avg_engagement_duration''"
    by blast
  from first second show ?thesis by (rule conjI)
qed

text \<open>The claim as stated gives the column the value 0 when a source column is absent;
  in the table transformed from a report with the \<open>sessions\<close> metric alone the column
  does not exist.\<close>

theorem avg_engagement_duration_absent_counterexample:
  "bind_result (fst (ga_transform_data quiet_env ga_sessions_only w0))
      (\<lambda>df. get_col df ''sessions'') = Inr [Num 7]
   \<and> bind_result (fst (ga_transform_data quiet_env ga_sessions_only w0))
      (\<lambda>df. get_col df ''userEngagementDuration'') = Inl (KeyError ''userEngagementDuration'')
   \<and> bind_result (fst (ga_transform_data quiet_env ga_sessions_only w0))
      (\<lambda>df. get_col df ''avg_engagement_duration'') = Inl (KeyError ''avg_engagement_duration'')"
  unfolding ga_sessions_only_run by (simp add: get_col_def)

text \<open>
  C1. The claim says that a 429 answer followed by a 200 answer with body \<open>B\<close> makes
  \<open>_make_request\<close> return \<open>B\<close> after one 60-second sleep, as an immediate 200 would.
  Against the server that answers 429 once and then 200 with \<open>B\<close>, the code raises
  \<open>HTTPError\<close> for the 429 after a single request and no sleep; against the server that
  answers 200 at once it returns \<open>B\<close>.
\<close>

theorem make_request_429_raises:
  "make_request (rate_limited_once body) etl endpoint ps w0 =
     (Inl (HTTPError 429), w0\<lparr>trace := [Get (mk_request etl endpoint ps)]\<rparr>)
   \<and> make_request (always_ok body) etl endpoint ps w0 =
     (Inr body, w0\<lparr>trace := [Get (mk_request etl endpoint ps)]\<rparr>)"
  by (simp add: make_request_once rate_limited_once_def always_ok_def quiet_env_def
      n_requests_def w0_def raise_for_status_def)

text \<open>
  C4. Against a paged member source that answers the successive page requests with the
  given non-empty pages and then with an empty page, and whose members all have the
  fields a row needs, \<open>extract_members\<close> returns: its result is the rows of the members
  of all pages, in order, and it has made one request per page and one more. In
  particular pages of 1000, 1000 and 437 members give 2437 rows and 4 requests.
\<close>

theorem extract_members_pages:
  assumes "serves_pages env etl list_id status pages (n_requests w) 0"
    and "map_result (member_row list_id) (concat pages) = Inr rows"
  shows "\<exists>w'. extract_members env etl list_id status w = Some (Inr rows, w')
            \<and> n_requests w' = n_requests w + length pages + 1
            \<and> length rows = length (concat pages)
            \<and> (map length pages = [1000, 1000, 437]
                 \<longrightarrow> length rows = 2437 \<and> n_requests w' = n_requests w + 4)"
proof -
  from members_loop_pages [OF assms, of "[]"] obtain w' where
    run: "extract_members env etl list_id status w = Some (Inr rows, w')"
    and n: "n_requests w' = n_requests w + length pages + 1"
    by (auto simp: extract_members_def)
  have len: "length rows = length (concat pages)"
    using assms(2) by (rule map_result_length)
  have "length rows = 2437 \<and> n_requests w' = n_requests w + 4"
    if sizes: "map length pages = [1000, 1000, 437]"
  proof -
    have "length (map length pages) = 3" by (simp add: sizes)
    then have "length pages = 3" by simp
    moreover have "length (concat pages) = 2437" by (simp add: length_concat sizes)
    ultimately show ?thesis using n len by simp
  qed
  with run n len show ?thesis by blast
qed

theorem extract_members_pages_witness:
  "\<exists>w'. extract_members (members_server (replicate 2437 (member_json ''UA''))) demo_etl
            (JStr ''l1'') ''subscribed'' w0
          = Some (Inr (replicate 2437 (member_example ''UA'')), w')
      \<and> n_requests w' = 4"
proof -
  let ?m = "member_json ''UA''" and ?r = "member_example ''UA''"
  let ?env = "members_server (replicate 2437 ?m)"
  let ?pages = "[replicate 1000 ?m, replicate 1000 ?m, replicate 437 ?m]"
  have n0: "n_requests w0 = 0" by (simp add: n_requests_def w0_def)
  have src: "serves_pages ?env demo_etl (JStr ''l1'') ''subscribed'' ?pages (n_requests w0) 0"
    by (simp add: n0 members_server_page)
  have rows: "map_result (member_row (JStr ''l1'')) (concat ?pages) = Inr (replicate 2437 ?r)"
    by (simp add: map_result_append_eq
        map_result_replicate [of "member_row (JStr ''l1'')" ?m ?r, OF member_row_example]
        flip: replicate_add)
  have sizes: "map length ?pages = [1000, 1000, 437]" by simp
  from extract_members_pages [OF src rows] sizes n0 show ?thesis by auto
qed




text \<open>
  C9. In a run of \<open>run_etl\<close> with \<open>include_members\<close> true and \<open>specific_list_ids\<close>
  \<open>None\<close> that returns, after \<open>extract_lists\<close> returned \<open>lists_data\<close>: every request
  for a page of members that the run makes is for a list id found in one of the first
  three rows of \<open>lists_data\<close> (compared as the URL spells them, through \<open>str\<close>), and
  the run does and returns exactly what the run with \<open>specific_list_ids\<close> set to the ids
  of those rows does. So a list after the third, whose id is not also that of one of the
  first three, is never asked for its members and contributes no member row to the
  output.
\<close>

theorem run_etl_members_first_three:
  assumes "extract_lists env etl w = (Inr lists_data, w1)"
    and "run_etl env etl True None since_date output_format w = Some (result, w')"
  shows "(\<exists>new_events. trace w' = trace w @ new_events
           \<and> (\<forall>list_id. members_url env etl list_id \<in> set (requested_urls new_events) \<longrightarrow>
                 (\<exists>item \<in> set (take 3 lists_data). \<exists>l.
                     map_of item ''list_id'' = Some l \<and> py_str env l = py_str env list_id)))
       \<and> (\<forall>ids. member_list_ids None lists_data = Inr ids \<longrightarrow>
             run_etl env etl True (Some ids) since_date output_format w = Some (result, w'))"
proof (rule conjI)
  let ?A = "{base_url etl @ ''/lists''} \<union> {u. \<exists>c. u = base_url etl @ ''/campaigns'' @ c}"
  let ?S = "{l. \<exists>item \<in> set (take 3 lists_data). map_of item ''list_id'' = Some l}"
  from run_etl_requests [OF assms] obtain evs where tr: "trace w' = trace w @ evs"
    and urls: "set (requested_urls evs) \<subseteq> ?A \<union> members_url env etl ` ?S"
    by (elim exE conjE)
  have first: "\<exists>item \<in> set (take 3 lists_data). \<exists>l.
            map_of item ''list_id'' = Some l \<and> py_str env l = py_str env list_id"
    if req: "members_url env etl list_id \<in> set (requested_urls evs)" for list_id
  proof -
    from req urls have "members_url env etl list_id \<in> ?A \<union> members_url env etl ` ?S" ..
    moreover have "members_url env etl list_id \<notin> ?A"
      by (simp add: members_url_def members_endpoint_def)
    ultimately have "members_url env etl list_id \<in> members_url env etl ` ?S" by simp
    then obtain l where l: "l \<in> ?S"
      and eq: "members_url env etl list_id = members_url env etl l" ..
    from eq have "py_str env l = py_str env list_id" by simp
    with l show ?thesis by blast
  qed
  show "\<exists>new_events. trace w' = trace w @ new_events
           \<and> (\<forall>list_id. members_url env etl list_id \<in> set (requested_urls new_events) \<longrightarrow>
                 (\<exists>item \<in> set (take 3 lists_data). \<exists>l.
                     map_of item ''list_id'' = Some l \<and> py_str env l = py_str env list_id))"
    apply (rule exI [of _ evs])
    apply (rule conjI)
     apply (rule tr)
    apply (intro allI impI)
    apply (erule first)
    done
next
  show "\<forall>ids. member_list_ids None lists_data = Inr ids \<longrightarrow>
             run_etl env etl True (Some ids) since_date output_format w = Some (result, w')"
    using run_etl_specific [OF assms(1)] assms(2) by simp
qed

theorem run_etl_members_first_three_witness:
  "\<exists>lists_data w1 result w' new_events.
      extract_lists four_lists_server demo_etl w0 = (Inr lists_data, w1)
    \<and> length lists_data = 4
    \<and> run_etl four_lists_server demo_etl True None None ''csv'' w0 = Some (result, w')
    \<and> trace w' = trace w0 @ new_events
    \<and> members_url four_lists_server demo_etl (JStr ''l4'') \<notin> set (requested_urls new_events)
    \<and> run_etl four_lists_server demo_etl True (Some [JStr ''l1'', JStr ''l2'', JStr ''l3''])
          None ''csv'' w0 = Some (result, w')"
proof -
  let ?rows = "map list_row_example [''l1'', ''l2'', ''l3'', ''l4'']"
  from run_etl_four_lists obtain result w' where
    run: "run_etl four_lists_server demo_etl True None None ''csv'' w0 = Some (result, w')"
    by (elim exE)
  from run_etl_members_first_three [OF extract_lists_four run] obtain new_events where
    tr: "trace w' = trace w0 @ new_events"
    and only: "\<And>list_id. members_url four_lists_server demo_etl list_id
                   \<in> set (requested_urls new_events) \<Longrightarrow>
                 \<exists>item \<in> set (take 3 ?rows). \<exists>l. map_of item ''list_id'' = Some l
                    \<and> py_str four_lists_server l = py_str four_lists_server list_id"
    and same: "\<And>ids. member_list_ids None ?rows = Inr ids \<Longrightarrow>
                 run_etl four_lists_server demo_etl True (Some ids) None ''csv'' w0
                   = Some (result, w')"
    by (elim conjE exE) blast
  have "members_url four_lists_server demo_etl (JStr ''l4'') \<notin> set (requested_urls new_events)"
  proof
    assume "members_url four_lists_server demo_etl (JStr ''l4'') \<in> set (requested_urls new_events)"
    from only [OF this] show False
      by (simp add: list_row_example_def four_lists_server_def quiet_env_def)
  qed
  with tr run same [OF first_three_of_four] extract_lists_four [of w0] show ?thesis
    by simp
qed

end
